theory Spec2Isabelle
  imports Main "HOL-Library.Sublist" "HOL-Library.Multiset"
begin

section \<open>JavaScript strings\<close>

text \<open>
  The extension is a single TypeScript module, \<^verbatim>\<open>open-session-files.ts\<close>. Its strings are
  modelled as \<^typ>\<open>string\<close>: one \<^typ>\<open>char\<close> per UTF-16 code unit, for the code units
  below 256 (ASCII and Latin-1). Code units above 255 are outside the model.
\<close>

abbreviation sq :: char where "sq \<equiv> CHR 0x27"
abbreviation dq :: char where "dq \<equiv> CHR 0x22"

text \<open>
  \<^verbatim>\<open>String.prototype.trim\<close> removes white space and line terminators from both ends. Those
  below 256 are TAB, LF, VT, FF, CR, SPACE and NBSP.
\<close>

definition is_js_space :: "char \<Rightarrow> bool" where
  "is_js_space c = (c \<in> set [CHR 0x09, CHR 0x0A, CHR 0x0B, CHR 0x0C, CHR 0x0D, CHR 0x20, CHR 0xA0])"

definition js_trim :: "string \<Rightarrow> string" where
  "js_trim s = rev (dropWhile is_js_space (rev (dropWhile is_js_space s)))"

text \<open>
  \<^verbatim>\<open>String.prototype.toLowerCase\<close>: below 256 the letters with a lower-case mapping are
  A..Z and the Latin-1 capitals 0xC0..0xDE without the multiplication sign 0xD7; each maps
  to the code unit 32 above.
\<close>

definition lower_char :: "char \<Rightarrow> char" where
  "lower_char c =
     (let n = (of_char c :: nat)
      in if (65 \<le> n \<and> n \<le> 90) \<or> (192 \<le> n \<and> n \<le> 222 \<and> n \<noteq> 215)
         then char_of (n + 32) else c)"

definition js_toLowerCase :: "string \<Rightarrow> string" where
  "js_toLowerCase s = map lower_char s"

text \<open>\<^verbatim>\<open>String.prototype.includes\<close> with a string argument: a contiguous occurrence.\<close>

definition js_includes :: "string \<Rightarrow> string \<Rightarrow> bool" where
  "js_includes s search = sublist search s"

text \<open>
  \<^verbatim>\<open>GetSubstitution\<close> of ECMA-262, for a replacement given as a string and a match without
  capture groups (a string pattern, or a regular expression with no group): in the
  replacement text \<^verbatim>\<open>$$\<close> stands for a dollar sign, \<^verbatim>\<open>$&\<close> for the matched text,
  \<^verbatim>\<open>$`\<close> for the part of the subject before the match and \<^verbatim>\<open>$'\<close> for the part after it.
  Every other character, also a dollar sign followed by anything else, is copied.
\<close>

fun GetSubstitution :: "string \<Rightarrow> string \<Rightarrow> string \<Rightarrow> string \<Rightarrow> string" where
  "GetSubstitution matched pre post [] = []"
| "GetSubstitution matched pre post [c] = [c]"
| "GetSubstitution matched pre post (c # d # r) =
     (if c = CHR ''$'' \<and> d = CHR ''$'' then CHR ''$'' # GetSubstitution matched pre post r
      else if c = CHR ''$'' \<and> d = CHR ''&'' then matched @ GetSubstitution matched pre post r
      else if c = CHR ''$'' \<and> d = CHR 0x60 then pre @ GetSubstitution matched pre post r
      else if c = CHR ''$'' \<and> d = sq then post @ GetSubstitution matched pre post r
      else c # GetSubstitution matched pre post (d # r))"

text \<open>
  \<^verbatim>\<open>String.prototype.replaceAll(search, replacement)\<close> with two strings: the occurrences
  of \<^verbatim>\<open>search\<close> are found from left to right without overlap, in the subject only (a
  replacement is never searched again), and each is replaced by the substitution of the
  replacement text. \<^verbatim>\<open>pre\<close> is the part of the subject already passed.
  The program calls it with the non-empty patterns \<^verbatim>\<open>{file}\<close> and \<^verbatim>\<open>{cwd}\<close> only; an
  empty pattern is not modelled (the scan then copies the subject).
\<close>

function replaceAll_from :: "string \<Rightarrow> string \<Rightarrow> string \<Rightarrow> string \<Rightarrow> string" where
  "replaceAll_from search replacement pre rest =
     (if search \<noteq> [] \<and> prefix search rest
      then GetSubstitution search pre (drop (length search) rest) replacement
           @ replaceAll_from search replacement (pre @ search) (drop (length search) rest)
      else (case rest of
              [] \<Rightarrow> []
            | c # r \<Rightarrow> c # replaceAll_from search replacement (pre @ [c]) r))"
  by pat_completeness auto
termination
  by (relation "measure (\<lambda>(search, replacement, pre, rest). length rest)")
     (auto simp: prefix_def)

declare replaceAll_from.simps [simp del]

definition js_replaceAll :: "string \<Rightarrow> string \<Rightarrow> string \<Rightarrow> string" where
  "js_replaceAll s search replacement = replaceAll_from search replacement [] s"

section \<open>Shell escaping\<close>

text \<open>
  \<^verbatim>\<open>function shellEscape(arg) { return `'${arg.replace(/'/g, `"'"'`)}'`; }\<close>

  The regular expression matches every single quote; the replacement text is the four
  characters double quote, single quote, double quote, single quote, and holds no dollar
  sign, so it is inserted as it is.
\<close>

definition shellEscape :: "string \<Rightarrow> string" where
  "shellEscape arg =
     [sq] @ concat (map (\<lambda>c. if c = sq then [dq, sq, dq, sq] else [c]) arg) @ [sq]"

section \<open>JavaScript values\<close>

text \<open>
  The session log, the tool-call blocks and the parsed settings files are untyped data
  (\<^verbatim>\<open>any\<close>) in the source. A value is \<^verbatim>\<open>undefined\<close>, \<^verbatim>\<open>null\<close>, a boolean, a number, a
  string, an array or a plain object; an object is the list of its own properties in
  insertion order, a later binding of a key overriding an earlier one. Numbers are
  integers (of magnitude below \<open>2^53\<close>, where a double is exact and prints in plain
  decimal); fractions and the rounding of doubles are outside the model.

  \<^verbatim>\<open>SyntaxError\<close> and \<^verbatim>\<open>TypeError\<close> are the two exceptions the program can raise.
  \<^verbatim>\<open>Unsupported\<close> is not an exception of the program: it is the answer of the model's JSON
  parser on a text whose value the model cannot hold (a fraction, an exponent, an integer
  of more than 15 digits, a \<^verbatim>\<open>\u\<close> escape above \<^verbatim>\<open>00FF\<close>); it is never caught, so that
  no statement is made about such inputs.
\<close>

datatype error = SyntaxError | TypeError | Unsupported

datatype js = Undef | Null | Bool bool | Num int | Str string | Arr "js list" | Obj "(string \<times> js) list"

text \<open>Truthiness (\<^verbatim>\<open>ToBoolean\<close>), as \<^verbatim>\<open>if (x)\<close>, \<^verbatim>\<open>!x\<close> and \<^verbatim>\<open>x || y\<close> use it.\<close>

fun truthy :: "js \<Rightarrow> bool" where
  "truthy Undef = False"
| "truthy Null = False"
| "truthy (Bool b) = b"
| "truthy (Num n) = (n \<noteq> 0)"
| "truthy (Str s) = (s \<noteq> [])"
| "truthy (Arr xs) = True"
| "truthy (Obj kvs) = True"

definition nullish :: "js \<Rightarrow> bool" where
  "nullish v = (v = Undef \<or> v = Null)"

text \<open>\<^verbatim>\<open>a || b\<close> and \<^verbatim>\<open>a ?? b\<close>, for a right operand that cannot raise.\<close>

definition js_or :: "js \<Rightarrow> js \<Rightarrow> js" where
  "js_or a b = (if truthy a then a else b)"

definition coalesce :: "js \<Rightarrow> js \<Rightarrow> js" where
  "coalesce a b = (if nullish a then b else a)"

text \<open>\<^verbatim>\<open>typeof v === "object"\<close> holds of \<^verbatim>\<open>null\<close>, of arrays and of objects.\<close>

definition typeof_object :: "js \<Rightarrow> bool" where
  "typeof_object v = (case v of Null \<Rightarrow> True | Arr xs \<Rightarrow> True | Obj kvs \<Rightarrow> True | _ \<Rightarrow> False)"

text \<open>
  Property access. The keys the program reads (\<^verbatim>\<open>type\<close>, \<^verbatim>\<open>message\<close>, \<^verbatim>\<open>role\<close>,
  \<^verbatim>\<open>content\<close>, \<^verbatim>\<open>name\<close>, \<^verbatim>\<open>function\<close>, \<^verbatim>\<open>arguments\<close>, \<^verbatim>\<open>input\<close>, \<^verbatim>\<open>path\<close>,
  \<^verbatim>\<open>openSessionFiles\<close>, \<^verbatim>\<open>openCommand\<close>, \<^verbatim>\<open>openMode\<close>, \<^verbatim>\<open>shortcut\<close>) are neither indices
  nor inherited properties of arrays, strings, numbers or booleans, so reading one of them
  from anything but a plain object gives \<^verbatim>\<open>undefined\<close>.
  \<^verbatim>\<open>v.k\<close> raises a TypeError on \<^verbatim>\<open>undefined\<close> and \<^verbatim>\<open>null\<close>; \<^verbatim>\<open>v?.k\<close> gives \<^verbatim>\<open>undefined\<close>
  there. \<open>get_opt\<close> is also \<^verbatim>\<open>v.k\<close> where the source has checked \<^verbatim>\<open>v\<close> before.
\<close>

definition own_property :: "js \<Rightarrow> string \<Rightarrow> js option" where
  "own_property v k = (case v of Obj kvs \<Rightarrow> map_of (rev kvs) k | _ \<Rightarrow> None)"

definition get :: "js \<Rightarrow> string \<Rightarrow> error + js" where
  "get v k =
     (if nullish v then Inl TypeError
      else Inr (case own_property v k of None \<Rightarrow> Undef | Some x \<Rightarrow> x))"

definition get_opt :: "js \<Rightarrow> string \<Rightarrow> js" where
  "get_opt v k = (case own_property v k of None \<Rightarrow> Undef | Some x \<Rightarrow> x)"

text \<open>
  \<^verbatim>\<open>String(v)\<close>: a number prints in decimal; an array joins the strings of its elements
  with commas (\<^verbatim>\<open>undefined\<close> and \<^verbatim>\<open>null\<close> elements print as nothing); a plain object
  prints as \<^verbatim>\<open>[object Object]\<close> through the inherited \<^verbatim>\<open>toString\<close>. An object with an
  own property \<^verbatim>\<open>toString\<close> hides the inherited method; the values of the model are data,
  never functions, so no conversion method is left (the inherited \<^verbatim>\<open>valueOf\<close> returns the
  object itself, an own \<^verbatim>\<open>valueOf\<close> is not callable) and the conversion raises a
  TypeError, also from inside an array.
\<close>

fun digits_of :: "nat \<Rightarrow> string" where
  "digits_of n =
     (if n < 10 then [''0123456789'' ! n]
      else digits_of (n div 10) @ [''0123456789'' ! (n mod 10)])"

declare digits_of.simps [simp del]

definition show_int :: "int \<Rightarrow> string" where
  "show_int i = (if i < 0 then CHR ''-'' # digits_of (nat (- i)) else digits_of (nat i))"

fun join_with :: "string \<Rightarrow> string list \<Rightarrow> string" where
  "join_with sep [] = []"
| "join_with sep [x] = x"
| "join_with sep (x # y # ys) = x @ sep @ join_with sep (y # ys)"

fun js_String :: "js \<Rightarrow> error + string"
  and elements_String :: "js list \<Rightarrow> error + string list"
where
  "js_String Undef = Inr ''undefined''"
| "js_String Null = Inr ''null''"
| "js_String (Bool b) = Inr (if b then ''true'' else ''false'')"
| "js_String (Num n) = Inr (show_int n)"
| "js_String (Str s) = Inr s"
| "js_String (Arr xs) =
     (case elements_String xs of Inl e \<Rightarrow> Inl e | Inr ss \<Rightarrow> Inr (join_with '','' ss))"
| "js_String (Obj kvs) =
     (if own_property (Obj kvs) ''toString'' = None then Inr ''[object Object]''
      else Inl TypeError)"
| "elements_String [] = Inr []"
| "elements_String (x # xs) =
     (case (if nullish x then Inr [] else js_String x) of
        Inl e \<Rightarrow> Inl e
      | Inr s \<Rightarrow>
          (case elements_String xs of Inl e \<Rightarrow> Inl e | Inr ss \<Rightarrow> Inr (s # ss)))"

text \<open>
  A method call \<^verbatim>\<open>v.toLowerCase()\<close> on a value that is truthy: only a string has the
  method; on a number, a boolean, an array or an object the property is \<^verbatim>\<open>undefined\<close> (or,
  for an object with such a key, not a function) and the call raises a TypeError.
\<close>

definition call_toLowerCase :: "js \<Rightarrow> error + js" where
  "call_toLowerCase v = (case v of Str s \<Rightarrow> Inr (Str (js_toLowerCase s)) | _ \<Rightarrow> Inl TypeError)"

section \<open>JSON.parse\<close>

text \<open>
  \<^verbatim>\<open>JSON.parse\<close> is the runtime's; the program calls it on the text of a settings file and
  on the \<^verbatim>\<open>function.arguments\<close> string of a tool call. It is modelled by a recursive descent
  over the grammar of ECMA-404: white space is space, tab, line feed and carriage return; a
  value is an object, an array, a string, a number or one of the three literals; nothing but
  white space may follow the value. A text outside the grammar raises a SyntaxError.
\<close>

definition is_json_ws :: "char \<Rightarrow> bool" where
  "is_json_ws c = (c \<in> set [CHR 0x20, CHR 0x09, CHR 0x0A, CHR 0x0D])"

definition skip_ws :: "string \<Rightarrow> string" where
  "skip_ws cs = dropWhile is_json_ws cs"

definition is_digit :: "char \<Rightarrow> bool" where
  "is_digit c = (48 \<le> (of_char c :: nat) \<and> (of_char c :: nat) \<le> 57)"

definition digit_val :: "char \<Rightarrow> nat" where
  "digit_val c = of_char c - 48"

definition hex_val :: "char \<Rightarrow> nat option" where
  "hex_val c =
     (let n = (of_char c :: nat)
      in if 48 \<le> n \<and> n \<le> 57 then Some (n - 48)
         else if 65 \<le> n \<and> n \<le> 70 then Some (n - 55)
         else if 97 \<le> n \<and> n \<le> 102 then Some (n - 87)
         else None)"

definition hex4 :: "char \<Rightarrow> char \<Rightarrow> char \<Rightarrow> char \<Rightarrow> nat option" where
  "hex4 a b c d =
     (case (hex_val a, hex_val b, hex_val c, hex_val d) of
        (Some w, Some x, Some y, Some z) \<Rightarrow> Some (4096 * w + 256 * x + 16 * y + z)
      | _ \<Rightarrow> None)"

definition escape_char :: "char \<Rightarrow> char option" where
  "escape_char e =
     map_of [(dq, dq), (CHR 0x5C, CHR 0x5C), (CHR ''/'', CHR ''/''), (CHR ''b'', CHR 0x08),
             (CHR ''f'', CHR 0x0C), (CHR ''n'', CHR 0x0A), (CHR ''r'', CHR 0x0D),
             (CHR ''t'', CHR 0x09)] e"

definition cons_char :: "char \<Rightarrow> error + (string \<times> string) \<Rightarrow> error + (string \<times> string)" where
  "cons_char c res = (case res of Inl e \<Rightarrow> Inl e | Inr (s, r) \<Rightarrow> Inr (c # s, r))"

text \<open>
  The characters of a string after its opening quote, up to the closing quote, and the
  text that follows. A control character, an unknown escape and a missing closing quote
  are syntax errors.
\<close>

fun parse_string :: "string \<Rightarrow> error + (string \<times> string)" where
  "parse_string [] = Inl SyntaxError"
| "parse_string (c # cs) =
     (if c = dq then Inr ([], cs)
      else if c = CHR 0x5C then
        (case cs of
           [] \<Rightarrow> Inl SyntaxError
         | e # r \<Rightarrow>
             if e = CHR ''u'' then
               (case r of
                  h1 # h2 # h3 # h4 # r' \<Rightarrow>
                    (case hex4 h1 h2 h3 h4 of
                       None \<Rightarrow> Inl SyntaxError
                     | Some n \<Rightarrow>
                         if n < 256 then cons_char (char_of n) (parse_string r')
                         else Inl Unsupported)
                | _ \<Rightarrow> Inl SyntaxError)
             else
               (case escape_char e of
                  None \<Rightarrow> Inl SyntaxError
                | Some x \<Rightarrow> cons_char x (parse_string r)))
      else if (of_char c :: nat) < 32 then Inl SyntaxError
      else cons_char c (parse_string cs))"

lemma parse_string_shorter:
  "parse_string cs = Inr (s, r) \<Longrightarrow> length r < length cs"
proof (induction cs arbitrary: s r rule: parse_string.induct)
  case 1
  then show ?case by simp
next
  case (2 c cs)
  then show ?case
    by (auto simp: cons_char_def split: if_splits list.splits option.splits sum.splits)
       fastforce+
qed

text \<open>
  A number: an optional minus sign and the integer part (a single zero, or digits that do
  not start with zero). A fraction or an exponent after it, and an integer part of more
  than 15 digits, leave the model.
\<close>

definition parse_number :: "string \<Rightarrow> error + (js \<times> string)" where
  "parse_number cs =
     (let negative = (case cs of [] \<Rightarrow> False | c # _ \<Rightarrow> c = CHR ''-'');
          body = (if negative then tl cs else cs);
          ds = (case body of
                  [] \<Rightarrow> []
                | d # r \<Rightarrow> if d = CHR ''0'' then [d] else takeWhile is_digit body);
          rest = drop (length ds) body;
          n = int (foldl (\<lambda>a d. 10 * a + digit_val d) 0 ds)
      in if ds = [] then Inl SyntaxError
         else if (case rest of [] \<Rightarrow> False | c # _ \<Rightarrow> c \<in> set ''.eE'') then Inl Unsupported
         else if 15 < length ds then Inl Unsupported
         else Inr (Num (if negative then - n else n), rest))"

definition parse_literal :: "string \<Rightarrow> error + (js \<times> string)" where
  "parse_literal cs =
     (if prefix ''true'' cs then Inr (Bool True, drop 4 cs)
      else if prefix ''false'' cs then Inr (Bool False, drop 5 cs)
      else if prefix ''null'' cs then Inr (Null, drop 4 cs)
      else Inl SyntaxError)"

lemma skip_ws_Cons_shorter:
  "skip_ws cs = c # r \<Longrightarrow> length r < length cs"
proof -
  assume a: "skip_ws cs = c # r"
  have "length (dropWhile is_json_ws cs) \<le> length cs"
    by (rule length_dropWhile_le)
  with a show ?thesis by (simp add: skip_ws_def)
qed

text \<open>
  A value, the elements of an array after its opening bracket, and the members of an
  object after its opening brace; each returns what it read and the text that follows.
  The test \<open>length r < length cs\<close> after a value has been read is there for the
  termination proof only: a value is never empty, so the test never fails
  (\<open>parse_value_consumes\<close> below).
\<close>

function parse_value :: "string \<Rightarrow> error + (js \<times> string)"
  and parse_elements :: "js list \<Rightarrow> string \<Rightarrow> error + (js \<times> string)"
  and parse_members :: "(string \<times> js) list \<Rightarrow> string \<Rightarrow> error + (js \<times> string)"
where
  "parse_value cs =
     (case skip_ws cs of
        [] \<Rightarrow> Inl SyntaxError
      | c # r \<Rightarrow>
          if c = CHR ''{'' then
            (case skip_ws r of
               [] \<Rightarrow> Inl SyntaxError
             | d # r' \<Rightarrow> if d = CHR ''}'' then Inr (Obj [], r') else parse_members [] r)
          else if c = CHR ''['' then
            (case skip_ws r of
               [] \<Rightarrow> Inl SyntaxError
             | d # r' \<Rightarrow> if d = CHR '']'' then Inr (Arr [], r') else parse_elements [] r)
          else if c = dq then
            (case parse_string r of Inl e \<Rightarrow> Inl e | Inr (s, r') \<Rightarrow> Inr (Str s, r'))
          else if c = CHR ''-'' \<or> is_digit c then parse_number (c # r)
          else parse_literal (c # r))"
| "parse_elements acc cs =
     (case parse_value cs of
        Inl e \<Rightarrow> Inl e
      | Inr (v, r) \<Rightarrow>
          if length r < length cs then
            (case skip_ws r of
               [] \<Rightarrow> Inl SyntaxError
             | d # r' \<Rightarrow>
                 if d = CHR '','' then parse_elements (acc @ [v]) r'
                 else if d = CHR '']'' then Inr (Arr (acc @ [v]), r')
                 else Inl SyntaxError)
          else Inl SyntaxError)"
| "parse_members acc cs =
     (case skip_ws cs of
        [] \<Rightarrow> Inl SyntaxError
      | q # r \<Rightarrow>
          if q \<noteq> dq then Inl SyntaxError
          else
            (case parse_string r of
               Inl e \<Rightarrow> Inl e
             | Inr (k, r1) \<Rightarrow>
                 (case skip_ws r1 of
                    [] \<Rightarrow> Inl SyntaxError
                  | colon # r2 \<Rightarrow>
                      if colon \<noteq> CHR '':'' then Inl SyntaxError
                      else
                        (case parse_value r2 of
                           Inl e \<Rightarrow> Inl e
                         | Inr (v, r3) \<Rightarrow>
                             if length r3 < length r2 then
                               (case skip_ws r3 of
                                  [] \<Rightarrow> Inl SyntaxError
                                | d # r4 \<Rightarrow>
                                    if d = CHR '','' then parse_members (acc @ [(k, v)]) r4
                                    else if d = CHR ''}'' then Inr (Obj (acc @ [(k, v)]), r4)
                                    else Inl SyntaxError)
                             else Inl SyntaxError))))"
  by pat_completeness auto
termination
proof (relation "measure (\<lambda>x. case x of
          Inl cs \<Rightarrow> 2 * length cs
        | Inr (Inl (acc, cs)) \<Rightarrow> 2 * length cs + 1
        | Inr (Inr (acc, cs)) \<Rightarrow> 2 * length cs + 1)", goal_cases)
  case 1
  then show ?case by simp
next
  case (2 cs c r d r')
  then show ?case by (auto dest: skip_ws_Cons_shorter)
next
  case (3 cs c r d r')
  then show ?case by (auto dest: skip_ws_Cons_shorter)
next
  case (4 acc cs)
  then show ?case by simp
next
  case (5 acc cs x v r d r')
  then show ?case by (auto dest: skip_ws_Cons_shorter)
next
  case (6 acc cs q r x k r1 colon r2)
  then show ?case
    by (auto dest!: skip_ws_Cons_shorter parse_string_shorter)
next
  case (7 acc cs q r x k r1 colon r2 y v r3 d r4)
  then show ?case
    by (auto dest!: skip_ws_Cons_shorter parse_string_shorter)
qed

declare parse_value.simps [simp del] parse_elements.simps [simp del] parse_members.simps [simp del]

definition JSON_parse :: "string \<Rightarrow> error + js" where
  "JSON_parse text =
     (case parse_value text of
        Inl e \<Rightarrow> Inl e
      | Inr (v, r) \<Rightarrow> if skip_ws r = [] then Inr v else Inl SyntaxError)"

section \<open>Paths, files and the environment\<close>

text \<open>
  \<^verbatim>\<open>path.join\<close> and \<^verbatim>\<open>path.basename\<close> of Node, in their POSIX form: \<^verbatim>\<open>join\<close> puts a slash
  between its non-empty arguments and normalises the result (empty and \<^verbatim>\<open>.\<close> segments
  vanish, \<^verbatim>\<open>..\<close> removes the segment before it, a trailing slash stays);
  \<^verbatim>\<open>basename\<close> is the last segment, trailing slashes dropped.
\<close>

fun split_on :: "char \<Rightarrow> string \<Rightarrow> string list" where
  "split_on sep [] = [[]]"
| "split_on sep (c # cs) =
     (if c = sep then [] # split_on sep cs
      else (case split_on sep cs of [] \<Rightarrow> [[c]] | seg # segs \<Rightarrow> (c # seg) # segs))"

fun normalize_segments :: "bool \<Rightarrow> string list \<Rightarrow> string list \<Rightarrow> string list" where
  "normalize_segments allowAboveRoot res [] = res"
| "normalize_segments allowAboveRoot res (seg # segs) =
     (if seg = [] \<or> seg = ''.'' then normalize_segments allowAboveRoot res segs
      else if seg = ''..'' then
        (if res \<noteq> [] \<and> last res \<noteq> ''..''
         then normalize_segments allowAboveRoot (butlast res) segs
         else if allowAboveRoot then normalize_segments allowAboveRoot (res @ [''..'']) segs
         else normalize_segments allowAboveRoot res segs)
      else normalize_segments allowAboveRoot (res @ [seg]) segs)"

definition path_normalize :: "string \<Rightarrow> string" where
  "path_normalize p =
     (if p = [] then ''.''
      else
        let isAbsolute = (hd p = CHR ''/'');
            trailingSeparator = (last p = CHR ''/'');
            body = join_with ''/'' (normalize_segments (\<not> isAbsolute) [] (split_on CHR ''/'' p))
        in if body = [] then (if isAbsolute then ''/'' else if trailingSeparator then ''./'' else ''.'')
           else (if isAbsolute then ''/'' else []) @ body @ (if trailingSeparator then ''/'' else []))"

definition path_join :: "string list \<Rightarrow> string" where
  "path_join args =
     (let parts = filter (\<lambda>a. a \<noteq> []) args
      in if parts = [] then ''.'' else path_normalize (join_with ''/'' parts))"

definition basename :: "string \<Rightarrow> string" where
  "basename p =
     rev (takeWhile (\<lambda>c. c \<noteq> CHR ''/'') (dropWhile (\<lambda>c. c = CHR ''/'') (rev p)))"

text \<open>
  What the program reads from its surroundings: the environment variables
  (\<^verbatim>\<open>process.env\<close>), the home directory (\<^verbatim>\<open>os.homedir()\<close>) and the file system. A path
  is absent, or it exists and \<^verbatim>\<open>readFileSync\<close> raises on it (a directory, a file without
  read permission), or it is a file with a text.
\<close>

datatype fs_node = Unreadable | Content string

record world =
  env :: "string \<rightharpoonup> string"
  homedir :: string
  disk :: "string \<rightharpoonup> fs_node"

definition existsSync :: "world \<Rightarrow> string \<Rightarrow> bool" where
  "existsSync w p = (disk w p \<noteq> None)"

text \<open>
  \<^verbatim>\<open>process.env.NAME?.trim()\<close> is only ever tested for truthiness or passed on when truthy,
  so an unset variable is given as the empty string; \<^verbatim>\<open>process.env.NAME || other\<close>
  likewise.
\<close>

definition env_trim :: "world \<Rightarrow> string \<Rightarrow> string" where
  "env_trim w name = (case env w name of None \<Rightarrow> [] | Some v \<Rightarrow> js_trim v)"

definition env_or :: "world \<Rightarrow> string \<Rightarrow> string \<Rightarrow> string" where
  "env_or w name other = (case env w name of None \<Rightarrow> other | Some v \<Rightarrow> if v = [] then other else v)"

section \<open>Settings\<close>

text \<open>
  \<^verbatim>\<open>type ExtensionSettings = { openCommand?: string; openMode?: OpenMode; shortcut?: string }\<close>

  The type is erased at run time and the object spread copies whatever a settings file
  holds, so each field is a JavaScript value, \<^verbatim>\<open>undefined\<close> when absent. Other keys of a
  settings file are carried along by the source and never read; the record leaves them out.
\<close>

record ExtensionSettings =
  openCommand :: js
  openMode :: js
  shortcut :: js

text \<open>
  \<^verbatim>\<open>
  function pickExtensionSettings(parsed: any): ExtensionSettings {
    const direct = parsed?.openSessionFiles;
    return typeof direct === "object" && direct ? direct : {};
  }
  function normalizeMode(value: unknown): OpenMode | undefined {
    if (value === "foreground" || value === "background") return value;
    return undefined;
  }\<close>
\<close>

definition pickExtensionSettings :: "js \<Rightarrow> js" where
  "pickExtensionSettings parsed =
     (let direct = get_opt parsed ''openSessionFiles''
      in if typeof_object direct \<and> truthy direct then direct else Obj [])"

definition normalizeMode :: "js \<Rightarrow> js" where
  "normalizeMode v = (if v = Str ''foreground'' \<or> v = Str ''background'' then v else Undef)"

text \<open>
  \<^verbatim>\<open>{ ...merged, ...src }\<close>: every own property of \<^verbatim>\<open>src\<close> replaces the field of that
  name, whatever its value; the other fields stay.
\<close>

definition spread_field :: "js \<Rightarrow> js \<Rightarrow> string \<Rightarrow> js" where
  "spread_field old src k = (case own_property src k of None \<Rightarrow> old | Some v \<Rightarrow> v)"

definition spread :: "ExtensionSettings \<Rightarrow> js \<Rightarrow> ExtensionSettings" where
  "spread merged src =
     \<lparr> openCommand = spread_field (openCommand merged) src ''openCommand'',
       openMode = spread_field (openMode merged) src ''openMode'',
       shortcut = spread_field (shortcut merged) src ''shortcut'' \<rparr>"

text \<open>
  \<^verbatim>\<open>
  function loadSettings(cwd: string): ExtensionSettings {
    const envCommand = process.env.PI_OPEN_FILE_COMMAND?.trim();
    const envMode = normalizeMode(process.env.PI_OPEN_FILE_MODE?.trim());
    const envShortcut = process.env.PI_OPEN_FILE_SHORTCUT?.trim();
    let merged: ExtensionSettings = {};
    if (envCommand) merged.openCommand = envCommand;
    if (envMode) merged.openMode = envMode;
    if (envShortcut) merged.shortcut = envShortcut;
    const agentDir = process.env.PI_CODING_AGENT_DIR?.trim() || join(homedir(), ".pi", "agent");
    const settingsPaths = [join(agentDir, "settings.json"), join(cwd, ".pi", "settings.json")];
    for (const path of settingsPaths) {
      if (!existsSync(path)) continue;
      try {
        const raw = readFileSync(path, "utf-8");
        const parsed = JSON.parse(raw);
        merged = { ...merged, ...pickExtensionSettings(parsed) };
      } catch {
        // ignore invalid config, fallback to defaults
      }
    }
    merged.openMode = normalizeMode(merged.openMode) ?? "foreground";
    merged.shortcut = (merged.shortcut || "alt+o").toLowerCase();
    return merged;
  }\<close>

  \<open>env_settings\<close> is \<^verbatim>\<open>merged\<close> before the loop, \<open>merge_files\<close> the loop (the
  \<^verbatim>\<open>catch\<close> swallows the errors of \<^verbatim>\<open>readFileSync\<close> and \<^verbatim>\<open>JSON.parse\<close>), and the two
  assignments after the loop are outside the \<^verbatim>\<open>try\<close>.
\<close>

definition env_settings :: "world \<Rightarrow> ExtensionSettings" where
  "env_settings w =
     (let envCommand = env_trim w ''PI_OPEN_FILE_COMMAND'';
          envMode = normalizeMode (Str (env_trim w ''PI_OPEN_FILE_MODE''));
          envShortcut = env_trim w ''PI_OPEN_FILE_SHORTCUT''
      in \<lparr> openCommand = (if envCommand \<noteq> [] then Str envCommand else Undef),
           openMode = (if truthy envMode then envMode else Undef),
           shortcut = (if envShortcut \<noteq> [] then Str envShortcut else Undef) \<rparr>)"

definition settingsPaths :: "world \<Rightarrow> string \<Rightarrow> string list" where
  "settingsPaths w cwd =
     (let d = env_trim w ''PI_CODING_AGENT_DIR'';
          agentDir = (if d \<noteq> [] then d else path_join [homedir w, ''.pi'', ''agent''])
      in [path_join [agentDir, ''settings.json''], path_join [cwd, ''.pi'', ''settings.json'']])"

fun merge_files :: "world \<Rightarrow> ExtensionSettings \<Rightarrow> string list \<Rightarrow> error + ExtensionSettings" where
  "merge_files w merged [] = Inr merged"
| "merge_files w merged (p # ps) =
     (case disk w p of
        None \<Rightarrow> merge_files w merged ps
      | Some Unreadable \<Rightarrow> merge_files w merged ps
      | Some (Content raw) \<Rightarrow>
          (case JSON_parse raw of
             Inl Unsupported \<Rightarrow> Inl Unsupported
           | Inl _ \<Rightarrow> merge_files w merged ps
           | Inr parsed \<Rightarrow> merge_files w (spread merged (pickExtensionSettings parsed)) ps))"

definition loadSettings :: "world \<Rightarrow> string \<Rightarrow> error + ExtensionSettings" where
  "loadSettings w cwd =
     (case merge_files w (env_settings w) (settingsPaths w cwd) of
        Inl e \<Rightarrow> Inl e
      | Inr merged \<Rightarrow>
          (let mode = coalesce (normalizeMode (openMode merged)) (Str ''foreground'')
           in case call_toLowerCase (js_or (shortcut merged) (Str ''alt+o'')) of
                Inl e \<Rightarrow> Inl e
              | Inr sc \<Rightarrow> Inr (merged\<lparr> openMode := mode, shortcut := sc \<rparr>)))"

section \<open>Building the command\<close>

text \<open>
  \<^verbatim>\<open>
  function buildOpenCommand(filePath: string, cwd: string, settings: ExtensionSettings): string {
    const editor = process.env.VISUAL || process.env.EDITOR || "vi";
    const template = settings.openCommand?.trim() || `${editor} {file}`;
    const templateMentionsFile = template.includes("{file}");
    let command = template
      .replaceAll("{file}", shellEscape(filePath))
      .replaceAll("{cwd}", shellEscape(cwd));
    if (!templateMentionsFile) command += ` ${shellEscape(filePath)}`;
    return command;
  }\<close>

  \<^verbatim>\<open>settings.openCommand?.trim()\<close> is \<^verbatim>\<open>undefined\<close> for an absent or null command and
  raises a TypeError for a command that is not a string.
\<close>

definition buildOpenCommand :: "world \<Rightarrow> string \<Rightarrow> string \<Rightarrow> ExtensionSettings \<Rightarrow> error + string" where
  "buildOpenCommand w filePath cwd settings =
     (let editor = env_or w ''VISUAL'' (env_or w ''EDITOR'' ''vi'');
          fallback = editor @ '' {file}''
      in case (case openCommand settings of
                 Undef \<Rightarrow> Inr fallback
               | Null \<Rightarrow> Inr fallback
               | Str s \<Rightarrow> Inr (if js_trim s \<noteq> [] then js_trim s else fallback)
               | _ \<Rightarrow> Inl TypeError) of
           Inl e \<Rightarrow> Inl e
         | Inr template \<Rightarrow>
             (let templateMentionsFile = js_includes template ''{file}'';
                  command = js_replaceAll (js_replaceAll template ''{file}'' (shellEscape filePath))
                              ''{cwd}'' (shellEscape cwd)
              in Inr (if templateMentionsFile then command
                      else command @ '' '' @ shellEscape filePath)))"

section \<open>Files edited in the session\<close>

text \<open>
  \<^verbatim>\<open>
  function getSessionEditedFiles(ctx: any): string[] {
    const entries = ctx.sessionManager.getBranch() as any[];
    const seen = new Set<string>();
    const files: string[] = [];
    for (const entry of entries) {
      if (entry.type !== "message") continue;
      const msg = entry.message;
      if (!msg || msg.role !== "assistant") continue;
      if (!Array.isArray(msg.content)) continue;
      for (const block of msg.content) {
        if (!block || typeof block !== "object") continue;
        const t = block.type;
        if (t !== "toolCall" && t !== "tool_use" && t !== "tool_call") continue;
        const name: string = block.name ?? block.function?.name ?? "";
        if (name !== "edit" && name !== "write") continue;
        const args = block.arguments ?? block.input
          ?? (block.function?.arguments ? JSON.parse(block.function.arguments) : undefined);
        if (!args?.path) continue;
        const filePath = String(args.path).replace(/^@/, "");
        if (!seen.has(filePath)) {
          seen.add(filePath);
          files.push(filePath);
        }
      }
    }
    return files;
  }\<close>

  The session branch is the list \<open>entries\<close>. \<open>strip_leading_at\<close> is
  \<^verbatim>\<open>.replace(/^@/, "")\<close>: the expression matches at the start of the string only, and
  only once. \<^verbatim>\<open>JSON.parse\<close> converts its argument to a string first. Nothing in the
  function catches an exception.
\<close>

definition strip_leading_at :: "string \<Rightarrow> string" where
  "strip_leading_at s = (case s of [] \<Rightarrow> [] | c # r \<Rightarrow> if c = CHR ''@'' then r else s)"

definition is_tool_call_type :: "js \<Rightarrow> bool" where
  "is_tool_call_type t = (t = Str ''toolCall'' \<or> t = Str ''tool_use'' \<or> t = Str ''tool_call'')"

definition block_name :: "js \<Rightarrow> js" where
  "block_name block =
     coalesce (get_opt block ''name'')
       (coalesce (get_opt (get_opt block ''function'') ''name'') (Str []))"

definition block_args :: "js \<Rightarrow> error + js" where
  "block_args block =
     (if \<not> nullish (get_opt block ''arguments'') then Inr (get_opt block ''arguments'')
      else if \<not> nullish (get_opt block ''input'') then Inr (get_opt block ''input'')
      else if truthy (get_opt (get_opt block ''function'') ''arguments'')
           then (case js_String (get_opt (get_opt block ''function'') ''arguments'') of
                   Inl e \<Rightarrow> Inl e
                 | Inr text \<Rightarrow> JSON_parse text)
           else Inr Undef)"

text \<open>
  The body of the inner loop up to the computation of \<^verbatim>\<open>filePath\<close>, in two steps:
  \<open>block_raw_path\<close> is the body up to \<^verbatim>\<open>String(args.path)\<close>, the path string as the
  tool call holds it, and \<open>block_file_path\<close> applies \<^verbatim>\<open>.replace(/^@/, "")\<close> to it.
  \<open>Inr None\<close> is \<^verbatim>\<open>continue\<close>, \<open>Inr (Some filePath)\<close> reaches the test of the
  seen-set, \<open>Inl\<close> is an exception.
\<close>

definition block_raw_path :: "js \<Rightarrow> error + string option" where
  "block_raw_path block =
     (if \<not> truthy block \<or> \<not> typeof_object block then Inr None
      else if \<not> is_tool_call_type (get_opt block ''type'') then Inr None
      else if block_name block \<noteq> Str ''edit'' \<and> block_name block \<noteq> Str ''write'' then Inr None
      else case block_args block of
             Inl e \<Rightarrow> Inl e
           | Inr args \<Rightarrow>
               if \<not> truthy (get_opt args ''path'') then Inr None
               else (case js_String (get_opt args ''path'') of
                       Inl e \<Rightarrow> Inl e
                     | Inr raw \<Rightarrow> Inr (Some raw)))"

definition block_file_path :: "js \<Rightarrow> error + string option" where
  "block_file_path block =
     (case block_raw_path block of
        Inl e \<Rightarrow> Inl e
      | Inr None \<Rightarrow> Inr None
      | Inr (Some raw) \<Rightarrow> Inr (Some (strip_leading_at raw)))"

text \<open>The two loops, threading \<^verbatim>\<open>seen\<close> and \<^verbatim>\<open>files\<close>.\<close>

type_synonym scan_state = "string set \<times> string list"

fun scan_blocks :: "js list \<Rightarrow> scan_state \<Rightarrow> error + scan_state" where
  "scan_blocks [] st = Inr st"
| "scan_blocks (block # blocks) (seen, files) =
     (case block_file_path block of
        Inl e \<Rightarrow> Inl e
      | Inr None \<Rightarrow> scan_blocks blocks (seen, files)
      | Inr (Some filePath) \<Rightarrow>
          if filePath \<notin> seen then scan_blocks blocks (insert filePath seen, files @ [filePath])
          else scan_blocks blocks (seen, files))"

text \<open>
  The blocks of an entry that the inner loop visits: none when the entry is skipped. Reading
  \<^verbatim>\<open>entry.type\<close> raises on an entry that is \<^verbatim>\<open>null\<close> or \<^verbatim>\<open>undefined\<close>.
\<close>

definition entry_blocks :: "js \<Rightarrow> error + js list" where
  "entry_blocks entry =
     (case get entry ''type'' of
        Inl e \<Rightarrow> Inl e
      | Inr ty \<Rightarrow>
          if ty \<noteq> Str ''message'' then Inr []
          else
            let msg = get_opt entry ''message''
            in if \<not> truthy msg \<or> get_opt msg ''role'' \<noteq> Str ''assistant'' then Inr []
               else (case get_opt msg ''content'' of Arr blocks \<Rightarrow> Inr blocks | _ \<Rightarrow> Inr []))"

fun scan_entries :: "js list \<Rightarrow> scan_state \<Rightarrow> error + scan_state" where
  "scan_entries [] st = Inr st"
| "scan_entries (entry # entries) st =
     (case entry_blocks entry of
        Inl e \<Rightarrow> Inl e
      | Inr blocks \<Rightarrow>
          (case scan_blocks blocks st of
             Inl e \<Rightarrow> Inl e
           | Inr st' \<Rightarrow> scan_entries entries st'))"

definition getSessionEditedFiles :: "js list \<Rightarrow> error + string list" where
  "getSessionEditedFiles entries =
     (case scan_entries entries ({}, []) of Inl e \<Rightarrow> Inl e | Inr (seen, files) \<Rightarrow> Inr files)"

section \<open>Launching the command\<close>

text \<open>
  What the extension does to the host and the operating system, in the order it does it:
  a notification, a detached \<^verbatim>\<open>spawn\<close> or a blocking \<^verbatim>\<open>spawnSync\<close> of
  \<^verbatim>\<open>shell -lc command\<close> in a working directory, stopping and starting the terminal UI,
  clearing the screen, a forced redraw.
\<close>

datatype level = Info | Warning

datatype event =
    Notify string level
  | Spawn string "string list" string
  | SpawnSync string "string list" string
  | TuiStop
  | ClearScreen
  | TuiStart
  | RequestRender

definition is_launch :: "event \<Rightarrow> bool" where
  "is_launch ev = (case ev of Spawn sh args d \<Rightarrow> True | SpawnSync sh args d \<Rightarrow> True | _ \<Rightarrow> False)"

text \<open>
  \<^verbatim>\<open>
  function runOpenCommand(filePath: string, cwd: string, settings: ExtensionSettings): void {
    const shell = process.env.SHELL || "/bin/sh";
    const command = buildOpenCommand(filePath, cwd, settings);
    const mode = settings.openMode ?? "foreground";
    if (mode === "background") {
      const child = spawn(shell, ["-lc", command], { stdio: "ignore", env: process.env, cwd, detached: true });
      child.unref();
      return;
    }
    spawnSync(shell, ["-lc", command], { stdio: "inherit", env: process.env, cwd });
  }\<close>
\<close>

definition runOpenCommand :: "world \<Rightarrow> string \<Rightarrow> string \<Rightarrow> ExtensionSettings \<Rightarrow> error + event" where
  "runOpenCommand w filePath cwd settings =
     (let shell = env_or w ''SHELL'' ''/bin/sh''
      in case buildOpenCommand w filePath cwd settings of
           Inl e \<Rightarrow> Inl e
         | Inr command \<Rightarrow>
             if coalesce (openMode settings) (Str ''foreground'') = Str ''background''
             then Inr (Spawn shell [''-lc'', command] cwd)
             else Inr (SpawnSync shell [''-lc'', command] cwd))"

section \<open>Candidates and ranking\<close>

text \<open>\<^verbatim>\<open>type Candidate = { path: string; search: string }\<close>\<close>

record Candidate =
  path :: string
  search :: string

text \<open>
  Modelled from the spec: \<^verbatim>\<open>fuzzysort.go\<close>, the entry point of the third-party library
  \<^verbatim>\<open>fuzzysort\<close>, whose code is not part of the sources. The specification says of it:
  score every candidate's search key against the query using fuzzy subsequence/substring
  matching, sort by descending match quality, and cap the result at 200 entries, ties
  broken by the ranking algorithm's native stable order. The matching itself is the
  parameter \<open>score\<close>: the quality of a key for a query, larger is better, \<open>None\<close> when
  the key does not match. The library's results carry the candidate in their \<^verbatim>\<open>obj\<close>
  field; the model returns the candidates themselves.
\<close>

definition fuzzysort_go ::
  "(string \<Rightarrow> string \<Rightarrow> int option) \<Rightarrow> string \<Rightarrow> Candidate list \<Rightarrow> nat \<Rightarrow> Candidate list" where
  "fuzzysort_go score query targets limit =
     take limit
       (sort_key (\<lambda>c. - the (score query (search c)))
          (filter (\<lambda>c. score query (search c) \<noteq> None) targets))"

text \<open>
  \<^verbatim>\<open>
  function rankCandidates(candidates: Candidate[], query: string): Candidate[] {
    if (!query.trim()) return candidates;
    const results = fuzzysort.go(query, candidates, { key: "search", limit: 200 });
    return results.map((r) => r.obj);
  }\<close>
\<close>

definition rankCandidates ::
  "(string \<Rightarrow> string \<Rightarrow> int option) \<Rightarrow> Candidate list \<Rightarrow> string \<Rightarrow> Candidate list" where
  "rankCandidates score candidates query =
     (if js_trim query = [] then candidates else fuzzysort_go score query candidates 200)"

section \<open>The picker flow\<close>

text \<open>
  \<^verbatim>\<open>openFilePicker\<close>, the handler of the shortcut and of the \<^verbatim>\<open>/open-file\<close> command:
  \<^verbatim>\<open>
    const files = getSessionEditedFiles(ctx);
    if (files.length === 0) { ctx.ui.notify("No files edited by the agent in this session", "warning"); return; }
    const settings = loadSettings(ctx.cwd);
    const candidates = files.filter((path) => existsSync(path))
      .map((path) => { const base = basename(path); return { path, search: `${base} ${path}` }; });
    if (candidates.length === 0) { ctx.ui.notify("No existing edited files to open", "warning"); return; }
    const selected = await ctx.ui.custom<string | null>(...);
    if (!selected) return;
    if (!existsSync(selected)) { ctx.ui.notify(`File no longer exists: ${selected}`, "warning"); return; }
    if ((settings.openMode ?? "foreground") === "background") {
      runOpenCommand(selected, ctx.cwd, settings);
      ctx.ui.notify("Launched open command in background", "info");
      return;
    }
    await ctx.ui.custom<void>((tui, _theme, _kb, done) => {
      tui.stop(); process.stdout.write("\x1b[2J\x1b[H");
      runOpenCommand(selected, ctx.cwd, settings);
      tui.start(); tui.requestRender(true); done(); ...
    });\<close>

  The modal picker is the host's: what it resolves to, the value of the chosen item or
  \<^verbatim>\<open>null\<close> on cancel, is the input \<open>selected\<close>. The file system may change while the
  picker is open: \<open>w\<close> is the world when the candidates are listed, \<open>w'\<close> the world
  after the selection. The result is the list of effects in order, and the exception that
  ended the flow, if one did.
\<close>

definition candidates_of :: "world \<Rightarrow> string list \<Rightarrow> Candidate list" where
  "candidates_of w fs =
     map (\<lambda>p. \<lparr> path = p, search = basename p @ '' '' @ p \<rparr>) (filter (existsSync w) fs)"

definition openFilePicker ::
  "world \<Rightarrow> world \<Rightarrow> js list \<Rightarrow> string \<Rightarrow> string option \<Rightarrow> event list \<times> error option" where
  "openFilePicker w w' entries cwd selected =
     (case getSessionEditedFiles entries of
        Inl e \<Rightarrow> ([], Some e)
      | Inr fs \<Rightarrow>
          if fs = [] then ([Notify ''No files edited by the agent in this session'' Warning], None)
          else
            (case loadSettings w cwd of
               Inl e \<Rightarrow> ([], Some e)
             | Inr settings \<Rightarrow>
                 if candidates_of w fs = []
                 then ([Notify ''No existing edited files to open'' Warning], None)
                 else
                   (case selected of
                      None \<Rightarrow> ([], None)
                    | Some sel \<Rightarrow>
                        if sel = [] then ([], None)
                        else if \<not> existsSync w' sel
                        then ([Notify (''File no longer exists: '' @ sel) Warning], None)
                        else if coalesce (openMode settings) (Str ''foreground'') = Str ''background''
                        then
                          (case runOpenCommand w' sel cwd settings of
                             Inl e \<Rightarrow> ([], Some e)
                           | Inr ev \<Rightarrow>
                               ([ev, Notify ''Launched open command in background'' Info], None))
                        else
                          (case runOpenCommand w' sel cwd settings of
                             Inl e \<Rightarrow> ([TuiStop, ClearScreen], Some e)
                           | Inr ev \<Rightarrow>
                               ([TuiStop, ClearScreen, ev, TuiStart, RequestRender], None)))))"

section \<open>Session logs and the order of a scan\<close>

text \<open>
  Two shapes of session data that the statements below use: an entry that holds an
  assistant message with the given content blocks, and a tool-call block in the current
  spelling, with its tool name and a \<^verbatim>\<open>path\<close> argument.
\<close>

definition assistant_message :: "js list \<Rightarrow> js" where
  "assistant_message blocks =
     Obj [(''type'', Str ''message''),
          (''message'', Obj [(''role'', Str ''assistant''), (''content'', Arr blocks)])]"

definition tool_call :: "string \<Rightarrow> string \<Rightarrow> js" where
  "tool_call name p =
     Obj [(''type'', Str ''toolCall''), (''name'', Str name), (''arguments'', Obj [(''path'', Str p)])]"

text \<open>
  The specification's view of a scan, to compare the loops with: the normalized paths of
  the blocks that reach the seen-set test, in the order the loops visit them
  (\<open>blocks_paths\<close> within one message, \<open>scanned_paths\<close> over the whole log, with the
  first exception met, if any); the paths of such a sequence that are not in a given
  set, each once, where it first stands (\<open>new_paths\<close>); and the position of the first
  occurrence of an element in a list (\<open>first_index\<close>).
\<close>

fun blocks_paths :: "js list \<Rightarrow> error + string list" where
  "blocks_paths [] = Inr []"
| "blocks_paths (block # blocks) =
     (case block_file_path block of
        Inl e \<Rightarrow> Inl e
      | Inr None \<Rightarrow> blocks_paths blocks
      | Inr (Some filePath) \<Rightarrow>
          (case blocks_paths blocks of Inl e \<Rightarrow> Inl e | Inr ps \<Rightarrow> Inr (filePath # ps)))"

fun scanned_paths :: "js list \<Rightarrow> error + string list" where
  "scanned_paths [] = Inr []"
| "scanned_paths (entry # entries) =
     (case entry_blocks entry of
        Inl e \<Rightarrow> Inl e
      | Inr blocks \<Rightarrow>
          (case blocks_paths blocks of
             Inl e \<Rightarrow> Inl e
           | Inr ps \<Rightarrow>
               (case scanned_paths entries of Inl e \<Rightarrow> Inl e | Inr qs \<Rightarrow> Inr (ps @ qs))))"

fun new_paths :: "string set \<Rightarrow> string list \<Rightarrow> string list" where
  "new_paths seen [] = []"
| "new_paths seen (p # ps) =
     (if p \<in> seen then new_paths seen ps else p # new_paths (insert p seen) ps)"

definition first_index :: "'a list \<Rightarrow> 'a \<Rightarrow> nat" where
  "first_index xs x = length (takeWhile (\<lambda>y. y \<noteq> x) xs)"

text \<open>
  The same view before normalization: the path strings \<^verbatim>\<open>String(args.path)\<close> of the edit
  and write calls of a message (\<open>blocks_raw_paths\<close>) and of a whole log
  (\<open>scanned_raw_paths\<close>), as the tool calls hold them, in the order of the scan.
\<close>

fun blocks_raw_paths :: "js list \<Rightarrow> error + string list" where
  "blocks_raw_paths [] = Inr []"
| "blocks_raw_paths (block # blocks) =
     (case block_raw_path block of
        Inl e \<Rightarrow> Inl e
      | Inr None \<Rightarrow> blocks_raw_paths blocks
      | Inr (Some raw) \<Rightarrow>
          (case blocks_raw_paths blocks of Inl e \<Rightarrow> Inl e | Inr rs \<Rightarrow> Inr (raw # rs)))"

fun scanned_raw_paths :: "js list \<Rightarrow> error + string list" where
  "scanned_raw_paths [] = Inr []"
| "scanned_raw_paths (entry # entries) =
     (case entry_blocks entry of
        Inl e \<Rightarrow> Inl e
      | Inr blocks \<Rightarrow>
          (case blocks_raw_paths blocks of
             Inl e \<Rightarrow> Inl e
           | Inr rs \<Rightarrow>
               (case scanned_raw_paths entries of Inl e \<Rightarrow> Inl e | Inr qs \<Rightarrow> Inr (rs @ qs))))"

section \<open>Example inputs\<close>

text \<open>
  A matching function for the examples of ranking: a key matches a query that occurs in
  it, and a shorter key is the better match.
\<close>

definition substring_score :: "string \<Rightarrow> string \<Rightarrow> int option" where
  "substring_score query key = (if sublist query key then Some (- int (length key)) else None)"

text \<open>
  A session log with a user message, a text block, a call of another tool, a tool result,
  an entry that is no message, the three spellings of a tool call, arguments in the three
  places the code looks for them, repeated paths in two messages, and a path that is a
  number (\<open>mixed_session\<close>).

  The end-to-end scenario of the specification: one assistant message that edits
  \<^verbatim>\<open>/tmp/x/foo.go\<close> and writes \<^verbatim>\<open>/tmp/x/bar.go\<close>; a file system that holds both files,
  and the same file system after \<^verbatim>\<open>bar.go\<close> has been deleted.
\<close>

definition mixed_session :: "js list" where
  \<open>mixed_session =
     [Obj [(''type'', Str ''message''),
           (''message'', Obj [(''role'', Str ''user''), (''content'', Str ''rename it'')])],
      assistant_message
        [Obj [(''type'', Str ''text''), (''text'', Str ''on it'')],
         tool_call ''edit'' ''a.ts'',
         Obj [(''type'', Str ''tool_use''), (''name'', Str ''write''),
              (''input'', Obj [(''path'', Str ''@foo.ts'')])],
         tool_call ''read'' ''r.ts''],
      Obj [(''type'', Str ''message''),
           (''message'', Obj [(''role'', Str ''toolResult''), (''content'', Arr [])])],
      Obj [(''type'', Str ''compaction'')],
      assistant_message
        [Obj [(''type'', Str ''tool_call''),
              (''function'', Obj [(''name'', Str ''edit''), (''arguments'', Str ''{"path": "b.ts"}'')])],
         tool_call ''write'' ''foo.ts'',
         tool_call ''edit'' ''@@foo.ts'',
         tool_call ''write'' ''a.ts'',
         Obj [(''type'', Str ''toolCall''), (''name'', Str ''edit''),
              (''arguments'', Obj [(''path'', Num 5)])]]]\<close>

definition picker_session :: "js list" where
  "picker_session =
     [assistant_message [tool_call ''edit'' ''/tmp/x/foo.go'', tool_call ''write'' ''/tmp/x/bar.go'']]"

definition world_listed :: world where
  "world_listed =
     \<lparr> env = Map.empty, homedir = ''/home/u'',
       disk = [''/tmp/x/foo.go'' \<mapsto> Content ''package x'', ''/tmp/x/bar.go'' \<mapsto> Content ''package x''] \<rparr>"

definition world_bar_deleted :: world where
  "world_bar_deleted =
     \<lparr> env = Map.empty, homedir = ''/home/u'',
       disk = [''/tmp/x/foo.go'' \<mapsto> Content ''package x''] \<rparr>"

section \<open>Evaluation rules\<close>

lemma char_of_nat_bits:
  "char_of (n::nat) = Char (odd n) (odd (n div 2)) (odd (n div 4)) (odd (n div 8))
     (odd (n div 16)) (odd (n div 32)) (odd (n div 64)) (odd (n div 128))"
  by (simp add: char_of_def bit_iff_odd)

lemmas str_eval = js_trim_def is_js_space_def js_toLowerCase_def lower_char_def char_of_nat_bits

lemmas js_eval = get_def get_opt_def own_property_def nullish_def typeof_object_def
  js_or_def coalesce_def

lemmas json_eval =
  JSON_parse_def parse_value.simps parse_elements.simps parse_members.simps
  parse_number_def parse_literal_def cons_char_def skip_ws_def is_json_ws_def
  is_digit_def digit_val_def hex4_def hex_val_def escape_char_def

lemmas path_eval = path_join_def path_normalize_def basename_def

lemmas settings_eval = loadSettings_def settingsPaths_def env_settings_def env_trim_def
  env_or_def normalizeMode_def spread_def spread_field_def pickExtensionSettings_def
  call_toLowerCase_def existsSync_def

lemmas build_eval = buildOpenCommand_def env_or_def js_includes_def js_replaceAll_def
  replaceAll_from.simps shellEscape_def Let_def sublist_code

lemmas session_eval = getSessionEditedFiles_def entry_blocks_def block_file_path_def
  block_raw_path_def block_args_def block_name_def is_tool_call_type_def strip_leading_at_def
  assistant_message_def tool_call_def

section \<open>Properties of the parser\<close>

text \<open>
  Reading a value consumes at least one character, so the length tests in
  \<open>parse_elements\<close> and \<open>parse_members\<close> always succeed.
\<close>

lemma parse_number_consumes:
  assumes "parse_number cs = Inr (v, r)"
  shows "length r < length cs"
proof -
  define body where "body = (if (case cs of [] \<Rightarrow> False | c # _ \<Rightarrow> c = CHR ''-'') then tl cs else cs)"
  define ds where "ds = (case body of [] \<Rightarrow> [] | d # r \<Rightarrow> if d = CHR ''0'' then [d] else takeWhile is_digit body)"
  have b: "length body \<le> length cs" by (simp add: body_def)
  have d: "length ds \<le> length body"
    by (cases body) (auto simp: ds_def length_takeWhile_le le_SucI)
  from assms have "ds \<noteq> [] \<and> r = drop (length ds) body"
    unfolding parse_number_def Let_def ds_def body_def
    by (simp split: if_splits)
  then show ?thesis using b d by (cases ds) auto
qed

lemma parse_literal_consumes:
  "parse_literal cs = Inr (v, r) \<Longrightarrow> length r < length cs"
  by (auto simp: parse_literal_def prefix_def split: if_splits)

lemma parse_value_consumes:
  "parse_value cs = Inr (v, r) \<Longrightarrow> length r < length cs"
  "parse_elements acc cs = Inr (v, r) \<Longrightarrow> length r < length cs"
  "parse_members macc cs = Inr (v, r) \<Longrightarrow> length r < length cs"
proof (induction cs and acc cs and macc cs arbitrary: v r and v r and v r
       rule: parse_value_parse_elements_parse_members.induct)
  case (1 cs)
  from "1.prems" obtain c rest where sk: "skip_ws cs = c # rest"
    unfolding parse_value.simps [of cs] by (auto split: list.splits)
  then have lt: "length rest < length cs" by (rule skip_ws_Cons_shorter)
  consider (obj) "c = CHR ''{''" | (arr) "c \<noteq> CHR ''{''" "c = CHR ''[''"
    | (str) "c \<noteq> CHR ''{''" "c \<noteq> CHR ''[''" "c = dq"
    | (num) "c \<noteq> CHR ''{''" "c \<noteq> CHR ''[''" "c \<noteq> dq" "c = CHR ''-'' \<or> is_digit c"
    | (lit) "c \<noteq> CHR ''{''" "c \<noteq> CHR ''[''" "c \<noteq> dq" "\<not> (c = CHR ''-'' \<or> is_digit c)"
    by blast
  then show ?case
  proof cases
    case obj
    from "1.prems" sk obj obtain d r' where sk2: "skip_ws rest = d # r'"
      unfolding parse_value.simps [of cs] by (auto split: list.splits)
    show ?thesis
    proof (cases "d = CHR ''}''")
      case True
      with "1.prems" sk obj sk2 have "r = r'"
        unfolding parse_value.simps [of cs] by simp
      with skip_ws_Cons_shorter [OF sk2] lt show ?thesis by simp
    next
      case False
      with "1.prems" sk obj sk2 have "parse_members [] rest = Inr (v, r)"
        unfolding parse_value.simps [of cs] by simp
      from "1.IH"(1) [OF sk obj sk2 False this] lt show ?thesis by simp
    qed
  next
    case arr
    from "1.prems" sk arr obtain d r' where sk2: "skip_ws rest = d # r'"
      unfolding parse_value.simps [of cs] by (auto split: list.splits)
    show ?thesis
    proof (cases "d = CHR '']''")
      case True
      with "1.prems" sk arr sk2 have "r = r'"
        unfolding parse_value.simps [of cs] by simp
      with skip_ws_Cons_shorter [OF sk2] lt show ?thesis by simp
    next
      case False
      with "1.prems" sk arr sk2 have "parse_elements [] rest = Inr (v, r)"
        unfolding parse_value.simps [of cs] by simp
      from "1.IH"(2) [OF sk arr(1) arr(2) sk2 False this] lt show ?thesis by simp
    qed
  next
    case str
    with "1.prems" sk obtain s where "parse_string rest = Inr (s, r)"
      unfolding parse_value.simps [of cs] by (auto split: sum.splits)
    from parse_string_shorter [OF this] lt show ?thesis by simp
  next
    case num
    with "1.prems" sk have "parse_number (c # rest) = Inr (v, r)"
      unfolding parse_value.simps [of cs] by auto
    from parse_number_consumes [OF this] lt show ?thesis by simp
  next
    case lit
    with "1.prems" sk have "parse_literal (c # rest) = Inr (v, r)"
      unfolding parse_value.simps [of cs] by auto
    from parse_literal_consumes [OF this] lt show ?thesis by simp
  qed
next
  case (2 acc cs)
  from "2.prems" obtain x r0 where pv: "parse_value cs = Inr (x, r0)"
    unfolding parse_elements.simps [of acc cs] by (auto split: sum.splits)
  from "2.IH"(1) [OF pv] have lt: "length r0 < length cs" .
  from "2.prems" pv lt obtain d r' where sk: "skip_ws r0 = d # r'"
    unfolding parse_elements.simps [of acc cs] by (auto split: list.splits)
  from skip_ws_Cons_shorter [OF sk] lt have lt': "length r' < length cs" by simp
  show ?case
  proof (cases "d = CHR '',''")
    case True
    with "2.prems" pv lt sk have "parse_elements (acc @ [x]) r' = Inr (v, r)"
      unfolding parse_elements.simps [of acc cs] by simp
    from "2.IH"(2) [OF pv refl lt sk True this] lt' show ?thesis by simp
  next
    case False
    with "2.prems" pv lt sk have "r = r'"
      unfolding parse_elements.simps [of acc cs] by (simp split: if_splits)
    with lt' show ?thesis by simp
  qed
next
  case (3 macc cs)
  from "3.prems" obtain q rest where sk: "skip_ws cs = q # rest"
    unfolding parse_members.simps [of macc cs] by (auto split: list.splits)
  from "3.prems" sk have q: "\<not> q \<noteq> dq"
    unfolding parse_members.simps [of macc cs] by (auto split: if_splits)
  from "3.prems" sk q obtain k r1 where ps: "parse_string rest = Inr (k, r1)"
    unfolding parse_members.simps [of macc cs] by (auto split: sum.splits)
  from "3.prems" sk q ps obtain colon r2 where sk1: "skip_ws r1 = colon # r2"
    unfolding parse_members.simps [of macc cs] by (auto split: list.splits)
  from "3.prems" sk q ps sk1 have col: "\<not> colon \<noteq> CHR '':''"
    unfolding parse_members.simps [of macc cs] by (auto split: if_splits)
  from "3.prems" sk q ps sk1 col obtain x r3 where pv: "parse_value r2 = Inr (x, r3)"
    unfolding parse_members.simps [of macc cs] by (auto split: sum.splits)
  have lt2: "length r2 < length cs"
    using skip_ws_Cons_shorter [OF sk] parse_string_shorter [OF ps] skip_ws_Cons_shorter [OF sk1]
    by simp
  from "3.IH"(1) [OF sk q ps refl sk1 col pv] have lt3: "length r3 < length r2" .
  from "3.prems" sk q ps sk1 col pv lt3 obtain d r4 where sk3: "skip_ws r3 = d # r4"
    unfolding parse_members.simps [of macc cs] by (auto split: list.splits)
  from skip_ws_Cons_shorter [OF sk3] lt3 lt2 have lt4: "length r4 < length cs" by simp
  show ?case
  proof (cases "d = CHR '',''")
    case True
    with "3.prems" sk q ps sk1 col pv lt3 sk3
    have "parse_members (macc @ [(k, x)]) r4 = Inr (v, r)"
      unfolding parse_members.simps [of macc cs] by simp
    from "3.IH"(2) [OF sk q ps refl sk1 col pv refl lt3 sk3 True this] lt4 show ?thesis by simp
  next
    case False
    with "3.prems" sk q ps sk1 col pv lt3 sk3 have "r = r4"
      unfolding parse_members.simps [of macc cs] by (simp split: if_splits)
    with lt4 show ?thesis by simp
  qed
qed

section \<open>Properties of shell escaping\<close>

lemma shellEscape_no_quote:
  "sq \<notin> set arg \<Longrightarrow> shellEscape arg = [sq] @ arg @ [sq]"
proof -
  assume "sq \<notin> set arg"
  then have "concat (map (\<lambda>c. if c = sq then [dq, sq, dq, sq] else [c]) arg) = arg"
    by (induction arg) auto
  then show ?thesis by (simp add: shellEscape_def)
qed

text \<open>
  C3. The claim: shellEscape is POSIX single-quote escaping, every embedded single quote
  becoming close-quote, double-quoted single quote, reopen-quote (five characters), so that
  \<^verbatim>\<open>it's.ts\<close> escapes to \<^verbatim>\<open>'it'"'"'s.ts'\<close>. The code's replacement text has four
  characters: the closing single quote in front is missing. On \<^verbatim>\<open>it's.ts\<close> the function
  returns \<^verbatim>\<open>'it"'"'s.ts'\<close>, which differs from the claimed result.
\<close>

theorem shellEscape_embedded_quote:
  \<open>shellEscape (''it'' @ [sq] @ ''s.ts'') = [sq] @ ''it"'' @ [sq] @ ''"'' @ [sq] @ ''s.ts'' @ [sq]
   \<and> shellEscape (''it'' @ [sq] @ ''s.ts'')
       \<noteq> [sq] @ ''it'' @ [sq] @ ''"'' @ [sq] @ ''"'' @ [sq] @ ''s.ts'' @ [sq]\<close>
  by (simp add: shellEscape_def)

section \<open>Properties of the session scan\<close>

text \<open>
  The two loops compute the specification's view: the result is the subsequence of new
  paths of the scanned sequence, and an exception of the scan is the first one met.
\<close>

lemma new_paths_append:
  "new_paths seen (ps @ qs) = new_paths seen ps @ new_paths (seen \<union> set ps) qs"
  by (induction ps arbitrary: seen) (auto simp: insert_absorb)

lemma set_new_paths: "set (new_paths seen ps) = set ps - seen"
  by (induction ps arbitrary: seen) auto

lemma distinct_new_paths: "distinct (new_paths seen ps)"
  by (induction ps arbitrary: seen) (auto simp: set_new_paths)

lemma first_index_Cons:
  "first_index (p # ps) x = (if x = p then 0 else Suc (first_index ps x))"
  by (simp add: first_index_def)

lemma sorted_new_paths:
  "sorted_wrt (\<lambda>p q. first_index ps p < first_index ps q) (new_paths seen ps)"
proof (induction ps arbitrary: seen)
  case Nil
  then show ?case by simp
next
  case (Cons p ps)
  have shift: "sorted_wrt (\<lambda>a b. first_index (p # ps) a < first_index (p # ps) b) (new_paths s ps)"
    if "p \<in> s" for s
  proof (rule sorted_wrt_mono_rel [OF _ Cons.IH [of s]])
    fix a b
    assume "a \<in> set (new_paths s ps)" "b \<in> set (new_paths s ps)"
      and lt: "first_index ps a < first_index ps b"
    with that have "a \<noteq> p" "b \<noteq> p" by (auto simp: set_new_paths)
    with lt show "first_index (p # ps) a < first_index (p # ps) b"
      by (simp add: first_index_Cons)
  qed
  show ?case
  proof (cases "p \<in> seen")
    case True
    then show ?thesis using shift [of seen] by simp
  next
    case False
    have "\<forall>y \<in> set (new_paths (insert p seen) ps). first_index (p # ps) p < first_index (p # ps) y"
      by (auto simp: set_new_paths first_index_Cons)
    then show ?thesis using False shift [of "insert p seen"] by simp
  qed
qed

lemma scan_blocks_eq:
  "scan_blocks blocks (seen, files) =
     (case blocks_paths blocks of
        Inl e \<Rightarrow> Inl e
      | Inr ps \<Rightarrow> Inr (seen \<union> set ps, files @ new_paths seen ps))"
proof (induction blocks arbitrary: seen files)
  case Nil
  then show ?case by simp
next
  case (Cons block blocks)
  show ?case
  proof (cases "block_file_path block")
    case (Inl e)
    then show ?thesis by simp
  next
    case (Inr r)
    show ?thesis
    proof (cases r)
      case None
      with Inr Cons.IH show ?thesis by simp
    next
      case (Some fp)
      with Inr Cons.IH [of seen files] Cons.IH [of "insert fp seen" "files @ [fp]"]
      show ?thesis
        by (auto split: sum.splits simp: insert_absorb)
    qed
  qed
qed

lemma scan_entries_eq:
  "scan_entries entries (seen, files) =
     (case scanned_paths entries of
        Inl e \<Rightarrow> Inl e
      | Inr ps \<Rightarrow> Inr (seen \<union> set ps, files @ new_paths seen ps))"
proof (induction entries arbitrary: seen files)
  case Nil
  then show ?case by simp
next
  case (Cons entry entries)
  show ?case
    by (auto simp: scan_blocks_eq Cons.IH new_paths_append Un_assoc split: sum.splits)
qed

lemma getSessionEditedFiles_eq:
  "getSessionEditedFiles entries =
     (case scanned_paths entries of Inl e \<Rightarrow> Inl e | Inr ps \<Rightarrow> Inr (new_paths {} ps))"
  by (simp add: getSessionEditedFiles_def scan_entries_eq split: sum.splits)

lemma entry_blocks_assistant_message [simp]:
  "entry_blocks (assistant_message blocks) = Inr blocks"
  by (simp add: entry_blocks_def assistant_message_def js_eval)

lemma blocks_paths_raw:
  "blocks_paths blocks =
     (case blocks_raw_paths blocks of
        Inl e \<Rightarrow> Inl e
      | Inr raws \<Rightarrow> Inr (map strip_leading_at raws))"
  by (induction blocks) (auto simp: block_file_path_def split: sum.splits option.splits)

lemma scanned_paths_raw:
  "scanned_paths entries =
     (case scanned_raw_paths entries of
        Inl e \<Rightarrow> Inl e
      | Inr raws \<Rightarrow> Inr (map strip_leading_at raws))"
  by (induction entries) (auto simp: blocks_paths_raw split: sum.splits)

lemma getSessionEditedFiles_raw_eq:
  "getSessionEditedFiles entries =
     (case scanned_raw_paths entries of
        Inl e \<Rightarrow> Inl e
      | Inr raws \<Rightarrow> Inr (new_paths {} (map strip_leading_at raws)))"
  by (simp add: getSessionEditedFiles_eq scanned_paths_raw split: sum.splits)

lemma strip_leading_at_explicit:
  "strip_leading_at = (\<lambda>s. if s \<noteq> [] \<and> hd s = CHR ''@'' then tl s else s)"
  by (rule ext) (simp add: strip_leading_at_def split: list.splits)

text \<open>
  How a log makes up its scanned sequence: entry after entry, and within an assistant
  message block after block; an edit or write call with a non-empty path string
  contributes that string.
\<close>

lemma blocks_raw_paths_append:
  "blocks_raw_paths (bs @ bs') =
     (case blocks_raw_paths bs of
        Inl e \<Rightarrow> Inl e
      | Inr rs \<Rightarrow> (case blocks_raw_paths bs' of Inl e \<Rightarrow> Inl e | Inr qs \<Rightarrow> Inr (rs @ qs)))"
  by (induction bs) (auto split: sum.splits option.splits)

lemma scanned_raw_paths_append:
  "scanned_raw_paths (es @ es') =
     (case scanned_raw_paths es of
        Inl e \<Rightarrow> Inl e
      | Inr rs \<Rightarrow> (case scanned_raw_paths es' of Inl e \<Rightarrow> Inl e | Inr qs \<Rightarrow> Inr (rs @ qs)))"
  by (induction es) (auto split: sum.splits)

lemma scanned_raw_paths_assistant_message:
  "scanned_raw_paths [assistant_message blocks] = blocks_raw_paths blocks"
  by (simp split: sum.splits)

lemma tool_call_block_is_object:
  "is_tool_call_type (get_opt block ''type'') \<Longrightarrow> truthy block \<and> typeof_object block"
  by (cases block) (auto simp: is_tool_call_type_def js_eval)

lemma block_raw_path_string:
  assumes "is_tool_call_type (get_opt block ''type'')"
    and "block_name block = Str ''edit'' \<or> block_name block = Str ''write''"
    and "block_args block = Inr args"
    and "get_opt args ''path'' = Str p" and "p \<noteq> []"
  shows "block_raw_path block = Inr (Some p)"
  using assms tool_call_block_is_object [OF assms(1)]
  by (auto simp: block_raw_path_def)

lemma count_new_paths_fresh:
  "x \<notin> set ps \<or> x \<in> seen \<Longrightarrow> count_list (new_paths seen ps) x = 0"
  by (auto simp: count_list_0_iff set_new_paths)

lemma new_paths_first_occurrence:
  assumes "x \<notin> set as"
  shows "new_paths {} (as @ x # rest) = new_paths {} as @ x # new_paths (insert x (set as)) rest"
  using assms by (simp add: new_paths_append)

lemma length_new_paths: "length (new_paths {} ps) = card (set ps)"
  using distinct_card [OF distinct_new_paths, of "{}" ps] by (simp add: set_new_paths)

lemma mixed_session_raw_paths:
  "scanned_raw_paths mixed_session
     = Inr [''a.ts'', ''@foo.ts'', ''b.ts'', ''foo.ts'', ''@@foo.ts'', ''a.ts'', ''5'']"
  by (simp add: mixed_session_def entry_blocks_def block_raw_path_def block_args_def
        block_name_def is_tool_call_type_def assistant_message_def tool_call_def
        js_eval json_eval show_int_def digits_of.simps)

text \<open>
  C4. Deduplication and order of extraction: whenever getSessionEditedFiles returns, for any
  session log, the returned list holds each path at most once (it is distinct), holds
  exactly the paths met during the scan, and lists them in the order of their first
  occurrence in the scan: positions of first occurrence strictly increase along the result.
\<close>

theorem getSessionEditedFiles_first_seen_order:
  assumes "getSessionEditedFiles entries = Inr files"
  shows "\<exists>paths. scanned_paths entries = Inr paths \<and> distinct files \<and> set files = set paths
           \<and> sorted_wrt (\<lambda>p q. first_index paths p < first_index paths q) files"
proof -
  from assms obtain paths where p: "scanned_paths entries = Inr paths"
    and f: "files = new_paths {} paths"
    by (auto simp: getSessionEditedFiles_eq split: sum.splits)
  show ?thesis
    using p f distinct_new_paths [of "{}" paths] set_new_paths [of "{}" paths]
      sorted_new_paths [of paths "{}"]
    by simp
qed

theorem getSessionEditedFiles_first_seen_order_witness:
  "getSessionEditedFiles
     [assistant_message [tool_call ''edit'' ''a.ts'', tool_call ''write'' ''b.ts''],
      assistant_message [tool_call ''edit'' ''a.ts'', tool_call ''edit'' ''c.ts'', tool_call ''write'' ''b.ts'']]
     = Inr [''a.ts'', ''b.ts'', ''c.ts'']
   \<and> (\<exists>paths. scanned_paths
         [assistant_message [tool_call ''edit'' ''a.ts'', tool_call ''write'' ''b.ts''],
          assistant_message [tool_call ''edit'' ''a.ts'', tool_call ''edit'' ''c.ts'', tool_call ''write'' ''b.ts'']]
          = Inr paths
        \<and> distinct [''a.ts'', ''b.ts'', ''c.ts'']
        \<and> set [''a.ts'', ''b.ts'', ''c.ts''] = set paths
        \<and> sorted_wrt (\<lambda>p q. first_index paths p < first_index paths q) [''a.ts'', ''b.ts'', ''c.ts''])"
proof -
  have h: "getSessionEditedFiles
     [assistant_message [tool_call ''edit'' ''a.ts'', tool_call ''write'' ''b.ts''],
      assistant_message [tool_call ''edit'' ''a.ts'', tool_call ''edit'' ''c.ts'', tool_call ''write'' ''b.ts'']]
     = Inr [''a.ts'', ''b.ts'', ''c.ts'']"
    by (simp add: session_eval js_eval)
  from getSessionEditedFiles_first_seen_order [OF h] h show ?thesis by blast
qed

text \<open>
  C7. Path normalization strips exactly one leading marker: for every session log, the
  function returns the path strings of the log's edit and write calls, each with its
  first character removed when that character is \<^verbatim>\<open>@\<close> and unchanged otherwise
  (then without the repeats), and it raises exactly when the scan for those strings
  raises. Nothing but that one character is removed: in the example log \<^verbatim>\<open>@@foo.ts\<close> is
  yielded as \<^verbatim>\<open>@foo.ts\<close>, \<^verbatim>\<open>@foo.ts\<close> as \<^verbatim>\<open>foo.ts\<close>, and \<^verbatim>\<open>a.ts\<close>, \<^verbatim>\<open>b.ts\<close> and
  the number 5 as they are.
\<close>

theorem getSessionEditedFiles_normalizes_every_path:
  "getSessionEditedFiles entries =
     (case scanned_raw_paths entries of
        Inl e \<Rightarrow> Inl e
      | Inr raws \<Rightarrow>
          Inr (new_paths {} (map (\<lambda>s. if s \<noteq> [] \<and> hd s = CHR ''@'' then tl s else s) raws)))"
  unfolding getSessionEditedFiles_raw_eq strip_leading_at_explicit
  by (rule refl)

theorem getSessionEditedFiles_normalizes_every_path_witness:
  "scanned_raw_paths mixed_session
     = Inr [''a.ts'', ''@foo.ts'', ''b.ts'', ''foo.ts'', ''@@foo.ts'', ''a.ts'', ''5'']
   \<and> getSessionEditedFiles mixed_session
     = Inr [''a.ts'', ''foo.ts'', ''b.ts'', ''@foo.ts'', ''5'']"
  using getSessionEditedFiles_normalizes_every_path [of mixed_session]
  by (simp add: mixed_session_raw_paths)

text \<open>
  C10. Deduplication is keyed on the normalized path: in any session log whose edit and
  write calls hold, in scan order, the path strings \<open>pre\<close>, then one of \<^verbatim>\<open>@p\<close> and
  \<^verbatim>\<open>p\<close>, then \<open>mid\<close>, then the other of the two, then \<open>post\<close> (the calls may
  stand in one message or in several, with anything else around them), where \<^verbatim>\<open>p\<close> is
  not met before the first of the two, the function returns a list that holds \<^verbatim>\<open>p\<close>
  exactly once, at the position of the first of the two occurrences: after the distinct
  normalized paths of \<open>pre\<close>. The claim's case is \<^verbatim>\<open>p = foo.ts\<close>.
\<close>

theorem dedup_keyed_on_normalized_path:
  assumes raws: "scanned_raw_paths entries = Inr (pre @ [r1] @ mid @ [r2] @ post)"
    and p: "p \<noteq> []" "hd p \<noteq> CHR ''@''"
    and raw: "(r1 = CHR ''@'' # p \<and> r2 = p) \<or> (r1 = p \<and> r2 = CHR ''@'' # p)"
    and fresh: "p \<notin> strip_leading_at ` set pre"
  shows "\<exists>files.
           getSessionEditedFiles entries = Inr files
           \<and> count_list files p = 1
           \<and> card (strip_leading_at ` set pre) < length files
           \<and> files ! card (strip_leading_at ` set pre) = p"
proof -
  let ?as = "map strip_leading_at pre"
  let ?rest = "map strip_leading_at mid @ [p] @ map strip_leading_at post"
  have strip: "strip_leading_at r1 = p" "strip_leading_at r2 = p"
    using raw p by (cases p; auto simp: strip_leading_at_def)+
  have notin: "p \<notin> set ?as"
    using fresh by (auto simp: image_iff)
  define files where "files = new_paths {} ?as @ p # new_paths (insert p (set ?as)) ?rest"
  have res: "getSessionEditedFiles entries = Inr files"
    using raws strip new_paths_first_occurrence [OF notin, of ?rest]
    by (simp add: getSessionEditedFiles_raw_eq files_def)
  have len: "length (new_paths {} ?as) = card (strip_leading_at ` set pre)"
    by (simp add: length_new_paths)
  have cnt: "count_list files p = 1"
    using notin by (simp add: files_def count_new_paths_fresh)
  have pos: "files ! length (new_paths {} ?as) = p" "length (new_paths {} ?as) < length files"
    by (simp_all add: files_def nth_append)
  from res cnt pos len show ?thesis by auto
qed

theorem dedup_keyed_on_normalized_path_witness:
  "scanned_raw_paths mixed_session
     = Inr ([''a.ts''] @ [''@foo.ts''] @ [''b.ts''] @ [''foo.ts''] @ [''@@foo.ts'', ''a.ts'', ''5''])
   \<and> (\<exists>files.
        getSessionEditedFiles mixed_session = Inr files
        \<and> count_list files ''foo.ts'' = 1 \<and> 1 < length files \<and> files ! 1 = ''foo.ts'')"
proof -
  have r: "scanned_raw_paths mixed_session
     = Inr ([''a.ts''] @ [''@foo.ts''] @ [''b.ts''] @ [''foo.ts''] @ [''@@foo.ts'', ''a.ts'', ''5''])"
    by (simp add: mixed_session_raw_paths)
  show ?thesis
    using dedup_keyed_on_normalized_path
            [OF r, of "''foo.ts''"] r
    by (simp add: strip_leading_at_def)
qed

lemma getSessionEditedFiles_skips_blocks_without_path:
  \<open>getSessionEditedFiles
     [assistant_message
        [tool_call ''edit'' ''a.ts'',
         Obj [(''type'', Str ''tool_call''),
              (''function'', Obj [(''name'', Str ''edit''), (''arguments'', Str ''{"path": "@c.ts"}'')])],
         Obj [(''type'', Str ''tool_use''), (''name'', Str ''write''), (''input'', Obj [(''note'', Str ''no path'')])],
         tool_call ''read'' ''r.ts'',
         tool_call ''write'' ''b.ts'']]
   = Inr [''a.ts'', ''c.ts'', ''b.ts'']\<close>
  by (simp add: session_eval js_eval json_eval)

text \<open>
  C2. The claim: a tool-call block whose arguments cannot be resolved to a path, also one
  whose \<^verbatim>\<open>function.arguments\<close> string is not valid JSON, is skipped without an error and
  the scan goes on. In the code \<^verbatim>\<open>JSON.parse(block.function.arguments)\<close> stands outside
  any \<^verbatim>\<open>try\<close>: on the block \<^verbatim>\<open>{type: "tool_call", function: {name: "edit", arguments:
  "{not json"}}\<close> between an edit of \<^verbatim>\<open>a.ts\<close> and a write of \<^verbatim>\<open>b.ts\<close> the function raises
  a SyntaxError and returns no list.
\<close>

theorem getSessionEditedFiles_invalid_json_raises:
  \<open>getSessionEditedFiles
     [assistant_message
        [tool_call ''edit'' ''a.ts'',
         Obj [(''type'', Str ''tool_call''),
              (''function'', Obj [(''name'', Str ''edit''), (''arguments'', Str ''{not json'')])],
         tool_call ''write'' ''b.ts'']]
   = Inl SyntaxError\<close>
  by (simp add: session_eval js_eval json_eval)

section \<open>Properties of the settings\<close>

lemma lower_char_idem: "lower_char (lower_char c) = lower_char c"
  by (auto simp: lower_char_def Let_def)

lemma js_toLowerCase_idem: "js_toLowerCase (js_toLowerCase s) = js_toLowerCase s"
  by (simp add: js_toLowerCase_def lower_char_idem)

text \<open>
  What holds of the settings whenever \<^verbatim>\<open>loadSettings\<close> returns: the mode is one of the
  two modes, the shortcut a non-empty lower-case string.
\<close>

lemma loadSettings_wellformed_when_it_returns:
  assumes "loadSettings w cwd = Inr s"
  shows "(openMode s = Str ''foreground'' \<or> openMode s = Str ''background'')
         \<and> (\<exists>sc. shortcut s = Str sc \<and> sc \<noteq> [] \<and> js_toLowerCase sc = sc)"
proof -
  from assms obtain merged sc where
    m: "merge_files w (env_settings w) (settingsPaths w cwd) = Inr merged"
    and sc: "call_toLowerCase (js_or (shortcut merged) (Str ''alt+o'')) = Inr sc"
    and s: "s = merged\<lparr> openMode := coalesce (normalizeMode (openMode merged)) (Str ''foreground''),
                        shortcut := sc \<rparr>"
    by (auto simp: loadSettings_def Let_def split: sum.splits)
  have mode: "openMode s = Str ''foreground'' \<or> openMode s = Str ''background''"
    by (auto simp: s coalesce_def normalizeMode_def nullish_def)
  from sc obtain t where t: "js_or (shortcut merged) (Str ''alt+o'') = Str t" "sc = Str (js_toLowerCase t)"
    by (auto simp: call_toLowerCase_def split: js.splits)
  have "t \<noteq> []"
    using t(1) by (auto simp: js_or_def split: if_splits)
  then have "js_toLowerCase t \<noteq> []" by (simp add: js_toLowerCase_def)
  with t mode show ?thesis by (simp add: s js_toLowerCase_idem)
qed

text \<open>
  C1. The claim: with \<^verbatim>\<open>PI_OPEN_FILE_MODE=background\<close> in the environment and
  \<^verbatim>\<open>openMode: "foreground"\<close> in both settings files, the effective mode is
  \<^verbatim>\<open>background\<close>. The code starts \<^verbatim>\<open>merged\<close> from the environment and then spreads
  each settings file over it, so a file's \<^verbatim>\<open>openMode\<close> replaces the
  environment's: at this input the effective mode is \<^verbatim>\<open>foreground\<close>.
\<close>

theorem loadSettings_files_override_environment:
  \<open>loadSettings
     \<lparr> env = [''PI_OPEN_FILE_MODE'' \<mapsto> ''background''],
       homedir = ''/home/u'',
       disk = [''/home/u/.pi/agent/settings.json''
                 \<mapsto> Content ''{"openSessionFiles":{"openMode":"foreground"}}'',
               ''/work/.pi/settings.json''
                 \<mapsto> Content ''{"openSessionFiles":{"openMode":"foreground"}}''] \<rparr>
     ''/work''
   = Inr \<lparr> openCommand = Undef, openMode = Str ''foreground'', shortcut = Str ''alt+o'' \<rparr>\<close>
  by (simp add: settings_eval js_eval str_eval path_eval json_eval)

text \<open>
  C9. The claim: whatever the two settings files hold, \<^verbatim>\<open>loadSettings\<close> returns settings
  whose mode is one of the two modes and whose shortcut is a non-empty lower-case string.
  The mode goes through \<^verbatim>\<open>normalizeMode\<close>, which accepts any value; the shortcut does not:
  \<^verbatim>\<open>(merged.shortcut || "alt+o").toLowerCase()\<close> stands after the \<^verbatim>\<open>try\<close>, and on a
  shortcut that is truthy and not a string the call raises. With the project settings
  file \<^verbatim>\<open>{"openSessionFiles":{"shortcut":5}}\<close> the function raises a TypeError and
  returns no settings.
\<close>

theorem loadSettings_shortcut_number_raises:
  \<open>loadSettings
     \<lparr> env = Map.empty, homedir = ''/home/u'',
       disk = [''/work/.pi/settings.json'' \<mapsto> Content ''{"openSessionFiles":{"shortcut":5}}''] \<rparr>
     ''/work''
   = Inl TypeError\<close>
  by (simp add: settings_eval js_eval str_eval path_eval json_eval)

section \<open>Properties of the command\<close>

text \<open>The two examples of the specification: a template with and without the placeholder.\<close>

lemma buildOpenCommand_examples:
  \<open>buildOpenCommand \<lparr> env = Map.empty, homedir = ''/home/u'', disk = Map.empty \<rparr>
      ''/tmp/a b.ts'' ''/work''
      \<lparr> openCommand = Str ''code {file}'', openMode = Str ''foreground'', shortcut = Str ''alt+o'' \<rparr>
     = Inr (''code '' @ [sq] @ ''/tmp/a b.ts'' @ [sq])
   \<and> buildOpenCommand \<lparr> env = Map.empty, homedir = ''/home/u'', disk = Map.empty \<rparr>
      ''/tmp/a b.ts'' ''/work''
      \<lparr> openCommand = Str ''code'', openMode = Str ''foreground'', shortcut = Str ''alt+o'' \<rparr>
     = Inr (''code '' @ [sq] @ ''/tmp/a b.ts'' @ [sq])\<close>
  by (simp add: build_eval str_eval)

text \<open>
  C5. The claim: for every path, working directory and settings, each \<^verbatim>\<open>{file}\<close> of the
  template becomes the shell-escaped path and each \<^verbatim>\<open>{cwd}\<close> the shell-escaped working
  directory. The code does not do so for every path. The second \<^verbatim>\<open>replaceAll\<close> runs over
  the result of the first, so a \<^verbatim>\<open>{cwd}\<close> inside the path is replaced too: with the
  template \<^verbatim>\<open>code {file}\<close>, the path \<^verbatim>\<open>/tmp/{cwd}.ts\<close> and the directory \<^verbatim>\<open>/work\<close> the
  command is \<^verbatim>\<open>code '/tmp/'/work'.ts'\<close>, not \<^verbatim>\<open>code '/tmp/{cwd}.ts'\<close>. And the
  escaped path is passed as a replacement text, in which a dollar sign is special: the
  escaped form of the path \<^verbatim>\<open>/tmp/a$\<close> ends in dollar, quote, which stands for the text
  after the match, and the command is \<^verbatim>\<open>code '/tmp/a\<close>, not \<^verbatim>\<open>code '/tmp/a$'\<close>.
\<close>

theorem buildOpenCommand_rewrites_the_escaped_path:
  \<open>buildOpenCommand \<lparr> env = Map.empty, homedir = ''/home/u'', disk = Map.empty \<rparr>
      ''/tmp/{cwd}.ts'' ''/work''
      \<lparr> openCommand = Str ''code {file}'', openMode = Str ''foreground'', shortcut = Str ''alt+o'' \<rparr>
     = Inr (''code '' @ [sq] @ ''/tmp/'' @ [sq] @ ''/work'' @ [sq] @ ''.ts'' @ [sq])
   \<and> shellEscape ''/tmp/{cwd}.ts'' = [sq] @ ''/tmp/{cwd}.ts'' @ [sq]
   \<and> buildOpenCommand \<lparr> env = Map.empty, homedir = ''/home/u'', disk = Map.empty \<rparr>
      ''/tmp/a$'' ''/work''
      \<lparr> openCommand = Str ''code {file}'', openMode = Str ''foreground'', shortcut = Str ''alt+o'' \<rparr>
     = Inr (''code '' @ [sq] @ ''/tmp/a'')
   \<and> shellEscape ''/tmp/a$'' = [sq] @ ''/tmp/a$'' @ [sq]\<close>
  by (simp add: build_eval str_eval)

section \<open>Properties of ranking\<close>

lemma fuzzysort_go_length: "length (fuzzysort_go score query targets limit) \<le> limit"
  by (simp add: fuzzysort_go_def)

lemma fuzzysort_go_mset: "mset (fuzzysort_go score query targets limit) \<subseteq># mset targets"
proof -
  let ?matched = "filter (\<lambda>c. score query (search c) \<noteq> None) targets"
  let ?sorted = "sort_key (\<lambda>c. - the (score query (search c))) ?matched"
  have "mset (take limit ?sorted) \<subseteq># mset ?sorted"
    by (metis append_take_drop_id mset_append mset_subset_eq_add_left)
  also have "mset ?sorted = mset ?matched" by simp
  also have "mset ?matched \<subseteq># mset targets" by simp
  finally show ?thesis by (simp add: fuzzysort_go_def)
qed

lemma fuzzysort_go_sorted:
  "sorted_wrt (\<lambda>a b. the (score query (search b)) \<le> the (score query (search a)))
     (fuzzysort_go score query targets limit)"
proof -
  let ?key = "\<lambda>c. - the (score query (search c))"
  let ?sorted = "sort_key ?key (filter (\<lambda>c. score query (search c) \<noteq> None) targets)"
  have "sorted (map ?key ?sorted)" by (rule sorted_sort_key)
  then have "sorted_wrt (\<lambda>a b. ?key a \<le> ?key b) ?sorted"
    by (simp add: sorted_map)
  then have "sorted_wrt (\<lambda>a b. the (score query (search b)) \<le> the (score query (search a))) ?sorted"
    by simp
  then show ?thesis
    unfolding fuzzysort_go_def by (rule sorted_wrt_take)
qed

lemma fuzzysort_go_matched:
  "c \<in> set (fuzzysort_go score query targets limit) \<Longrightarrow> score query (search c) \<noteq> None"
  by (auto simp: fuzzysort_go_def dest: in_set_takeD)

text \<open>
  C6. Ranking identity on an empty query and result cap: with a query that is empty or
  only white space, rankCandidates returns the candidate list it was given, unchanged; with
  any other query the result has at most 200 entries, takes its entries from the
  candidates (none more often than it stands there), holds only candidates that match,
  and is ordered by descending match quality. The second half is a property of
  \<^verbatim>\<open>fuzzysort.go\<close> as the specification describes it.
\<close>

theorem rankCandidates_identity_and_cap:
  "(js_trim query = [] \<longrightarrow> rankCandidates score candidates query = candidates)
   \<and> (js_trim query \<noteq> [] \<longrightarrow>
        length (rankCandidates score candidates query) \<le> 200
        \<and> mset (rankCandidates score candidates query) \<subseteq># mset candidates
        \<and> (\<forall>c \<in> set (rankCandidates score candidates query). score query (search c) \<noteq> None)
        \<and> sorted_wrt (\<lambda>a b. the (score query (search b)) \<le> the (score query (search a)))
             (rankCandidates score candidates query))"
  by (simp add: rankCandidates_def fuzzysort_go_length fuzzysort_go_mset fuzzysort_go_sorted
                fuzzysort_go_matched)

theorem rankCandidates_identity_and_cap_witness:
  "js_trim ''  '' = []
   \<and> rankCandidates substring_score
        [\<lparr>path = ''src/app.test.ts'', search = ''app.test.ts src/app.test.ts''\<rparr>,
         \<lparr>path = ''README.md'', search = ''README.md README.md''\<rparr>,
         \<lparr>path = ''src/app.ts'', search = ''app.ts src/app.ts''\<rparr>] ''  ''
       = [\<lparr>path = ''src/app.test.ts'', search = ''app.test.ts src/app.test.ts''\<rparr>,
          \<lparr>path = ''README.md'', search = ''README.md README.md''\<rparr>,
          \<lparr>path = ''src/app.ts'', search = ''app.ts src/app.ts''\<rparr>]
   \<and> js_trim ''app'' \<noteq> []
   \<and> rankCandidates substring_score
        [\<lparr>path = ''src/app.test.ts'', search = ''app.test.ts src/app.test.ts''\<rparr>,
         \<lparr>path = ''README.md'', search = ''README.md README.md''\<rparr>,
         \<lparr>path = ''src/app.ts'', search = ''app.ts src/app.ts''\<rparr>] ''app''
       = [\<lparr>path = ''src/app.ts'', search = ''app.ts src/app.ts''\<rparr>,
          \<lparr>path = ''src/app.test.ts'', search = ''app.test.ts src/app.test.ts''\<rparr>]
   \<and> length (rankCandidates substring_score
        [\<lparr>path = ''src/app.test.ts'', search = ''app.test.ts src/app.test.ts''\<rparr>,
         \<lparr>path = ''README.md'', search = ''README.md README.md''\<rparr>,
         \<lparr>path = ''src/app.ts'', search = ''app.ts src/app.ts''\<rparr>] ''app'') \<le> 200"
proof -
  have e: "js_trim ''  '' = []" and n: "js_trim ''app'' \<noteq> []"
    by (simp_all add: str_eval)
  have r: "rankCandidates substring_score
        [\<lparr>path = ''src/app.test.ts'', search = ''app.test.ts src/app.test.ts''\<rparr>,
         \<lparr>path = ''README.md'', search = ''README.md README.md''\<rparr>,
         \<lparr>path = ''src/app.ts'', search = ''app.ts src/app.ts''\<rparr>] ''app''
       = [\<lparr>path = ''src/app.ts'', search = ''app.ts src/app.ts''\<rparr>,
          \<lparr>path = ''src/app.test.ts'', search = ''app.test.ts src/app.test.ts''\<rparr>]"
    by (simp add: rankCandidates_def fuzzysort_go_def substring_score_def str_eval sublist_code)
  show ?thesis
    using rankCandidates_identity_and_cap [of "''  ''" substring_score
        "[\<lparr>path = ''src/app.test.ts'', search = ''app.test.ts src/app.test.ts''\<rparr>,
         \<lparr>path = ''README.md'', search = ''README.md README.md''\<rparr>,
         \<lparr>path = ''src/app.ts'', search = ''app.ts src/app.ts''\<rparr>]"]
      rankCandidates_identity_and_cap [of "''app''" substring_score
        "[\<lparr>path = ''src/app.test.ts'', search = ''app.test.ts src/app.test.ts''\<rparr>,
         \<lparr>path = ''README.md'', search = ''README.md README.md''\<rparr>,
         \<lparr>path = ''src/app.ts'', search = ''app.ts src/app.ts''\<rparr>]"]
      e n r
    by simp
qed

section \<open>Properties of the picker flow\<close>

lemma runOpenCommand_is_launch: "runOpenCommand w p cwd settings = Inr ev \<Longrightarrow> is_launch ev"
  by (auto simp: runOpenCommand_def is_launch_def Let_def split: sum.splits if_splits)

text \<open>
  C8. A stale selection is never launched: whatever the session, the settings and the
  selection are, every launch among the effects of the picker flow is the launch of the
  selected path, and that path exists after the selection; when the selected path does not
  exist then, no launch is among the effects; and when the picker was shown (files were
  found, settings loaded, some candidate existed) and the selected path no longer exists,
  the flow's only effect is the warning \<^verbatim>\<open>File no longer exists: <path>\<close>.
\<close>

theorem stale_selection_is_never_launched:
  "(\<forall>ev \<in> set (fst (openFilePicker w w' entries cwd selected)).
      is_launch ev \<longrightarrow>
        (\<exists>sel settings. selected = Some sel \<and> existsSync w' sel
           \<and> loadSettings w cwd = Inr settings \<and> runOpenCommand w' sel cwd settings = Inr ev))
   \<and> (\<forall>sel. selected = Some sel \<and> \<not> existsSync w' sel \<longrightarrow>
        filter is_launch (fst (openFilePicker w w' entries cwd selected)) = [])
   \<and> (\<forall>sel fs settings.
        getSessionEditedFiles entries = Inr fs \<and> candidates_of w fs \<noteq> []
        \<and> loadSettings w cwd = Inr settings
        \<and> selected = Some sel \<and> sel \<noteq> [] \<and> \<not> existsSync w' sel \<longrightarrow>
        openFilePicker w w' entries cwd selected
          = ([Notify (''File no longer exists: '' @ sel) Warning], None))"
proof (intro conjI)
  show "\<forall>ev \<in> set (fst (openFilePicker w w' entries cwd selected)).
      is_launch ev \<longrightarrow>
        (\<exists>sel settings. selected = Some sel \<and> existsSync w' sel
           \<and> loadSettings w cwd = Inr settings \<and> runOpenCommand w' sel cwd settings = Inr ev)"
    by (auto simp: openFilePicker_def is_launch_def split: sum.splits option.splits if_splits)
  show "\<forall>sel. selected = Some sel \<and> \<not> existsSync w' sel \<longrightarrow>
        filter is_launch (fst (openFilePicker w w' entries cwd selected)) = []"
    by (auto simp: openFilePicker_def is_launch_def split: sum.splits option.splits if_splits)
  show "\<forall>sel fs settings.
        getSessionEditedFiles entries = Inr fs \<and> candidates_of w fs \<noteq> []
        \<and> loadSettings w cwd = Inr settings
        \<and> selected = Some sel \<and> sel \<noteq> [] \<and> \<not> existsSync w' sel \<longrightarrow>
        openFilePicker w w' entries cwd selected
          = ([Notify (''File no longer exists: '' @ sel) Warning], None)"
    by (auto simp: openFilePicker_def candidates_of_def)
qed

lemma picker_session_files:
  "getSessionEditedFiles picker_session = Inr [''/tmp/x/foo.go'', ''/tmp/x/bar.go'']"
  by (simp add: picker_session_def session_eval js_eval)

lemma world_listed_settings:
  "loadSettings world_listed ''/tmp/x''
     = Inr \<lparr> openCommand = Undef, openMode = Str ''foreground'', shortcut = Str ''alt+o'' \<rparr>"
  by (simp add: world_listed_def settings_eval js_eval str_eval path_eval)

theorem stale_selection_is_never_launched_witness:
  "openFilePicker world_listed world_bar_deleted picker_session ''/tmp/x'' (Some ''/tmp/x/bar.go'')
     = ([Notify ''File no longer exists: /tmp/x/bar.go'' Warning], None)
   \<and> filter is_launch
        (fst (openFilePicker world_listed world_bar_deleted picker_session ''/tmp/x'' (Some ''/tmp/x/bar.go'')))
       = []
   \<and> openFilePicker world_listed world_bar_deleted picker_session ''/tmp/x'' (Some ''/tmp/x/foo.go'')
     = ([TuiStop, ClearScreen,
         SpawnSync ''/bin/sh'' [''-lc'', ''vi '' @ [sq] @ ''/tmp/x/foo.go'' @ [sq]] ''/tmp/x'',
         TuiStart, RequestRender], None)"
proof -
  have c: "candidates_of world_listed [''/tmp/x/foo.go'', ''/tmp/x/bar.go''] \<noteq> []"
    by (simp add: candidates_of_def world_listed_def existsSync_def)
  have gone: "\<not> existsSync world_bar_deleted ''/tmp/x/bar.go''"
    by (simp add: world_bar_deleted_def existsSync_def)
  have there: "existsSync world_bar_deleted ''/tmp/x/foo.go''"
    by (simp add: world_bar_deleted_def existsSync_def)
  have run: "runOpenCommand world_bar_deleted ''/tmp/x/foo.go'' ''/tmp/x''
               \<lparr> openCommand = Undef, openMode = Str ''foreground'', shortcut = Str ''alt+o'' \<rparr>
             = Inr (SpawnSync ''/bin/sh'' [''-lc'', ''vi '' @ [sq] @ ''/tmp/x/foo.go'' @ [sq]] ''/tmp/x'')"
    by (simp add: runOpenCommand_def world_bar_deleted_def build_eval js_eval)
  have launched: "openFilePicker world_listed world_bar_deleted picker_session ''/tmp/x'' (Some ''/tmp/x/foo.go'')
     = ([TuiStop, ClearScreen,
         SpawnSync ''/bin/sh'' [''-lc'', ''vi '' @ [sq] @ ''/tmp/x/foo.go'' @ [sq]] ''/tmp/x'',
         TuiStart, RequestRender], None)"
    using c there run
    by (simp add: openFilePicker_def picker_session_files world_listed_settings js_eval)
  show ?thesis
    using stale_selection_is_never_launched
            [of world_listed world_bar_deleted picker_session "''/tmp/x''" "Some ''/tmp/x/bar.go''"]
          picker_session_files world_listed_settings c gone launched
    by simp
qed

end
